theory Spec2Isabelle
  imports Main
begin

section \<open>JavaScript values, errors and console output\<close>

text \<open>
  Values that cross the boundary to the remote provider (parsed JSON, response bodies) and
  the outcome objects the uploaders build. An object is its property table; the first
  binding of a key is the property's value. Numbers are restricted to integers.
\<close>

datatype jsval =
    Undefined
  | Null
  | Bool bool
  | Num int
  | Str string
  | Arr "jsval list"
  | Obj "(string \<times> jsval) list"

text \<open>What \<open>error.response\<close> holds on an axios or gaxios error.\<close>

record err_response =
  resp_status :: int
  resp_data :: jsval
  resp_headers :: jsval

text \<open>
  A thrown value. Everything thrown in this program is an \<open>Error\<close> instance: the
  program's own \<open>new Error(...)\<close>, the runtime's \<open>TypeError\<close> and \<open>SyntaxError\<close>, the
  HTTP clients' errors (which carry \<open>response\<close> when the server answered) and multer's
  \<open>MulterError\<close> (which carries \<open>code\<close>).
\<close>

record js_error =
  message :: string
  response :: "err_response option"
  multer_code :: "string option"

definition new_Error :: "string \<Rightarrow> js_error" where
  "new_Error msg = \<lparr>message = msg, response = None, multer_code = None\<rparr>"

definition new_TypeError :: "string \<Rightarrow> js_error" where
  "new_TypeError msg = \<lparr>message = msg, response = None, multer_code = None\<rparr>"

fun truthy :: "jsval \<Rightarrow> bool" where
  "truthy Undefined = False"
| "truthy Null = False"
| "truthy (Bool b) = b"
| "truthy (Num n) = (n \<noteq> 0)"
| "truthy (Str s) = (s \<noteq> [])"
| "truthy (Arr xs) = True"
| "truthy (Obj kvs) = True"

text \<open>Decimal notation of a natural number, as a template literal prints it.\<close>

fun digit_char :: "nat \<Rightarrow> char" where
  "digit_char n = char_of (48 + n)"

fun decimal :: "nat \<Rightarrow> string" where
  "decimal n = (if n < 10 then [digit_char n] else decimal (n div 10) @ [digit_char (n mod 10)])"

declare decimal.simps [simp del]

text \<open>
  \<open>v.k\<close> on a value that is neither \<open>undefined\<close> nor \<open>null\<close>. Of the inherited
  properties only \<open>length\<close> is read by the program.
\<close>

fun js_prop :: "jsval \<Rightarrow> string \<Rightarrow> jsval" where
  "js_prop (Obj kvs) k = (case map_of kvs k of Some v \<Rightarrow> v | None \<Rightarrow> Undefined)"
| "js_prop (Arr xs) k = (if k = ''length'' then Num (int (length xs)) else Undefined)"
| "js_prop (Str s) k = (if k = ''length'' then Num (int (length s)) else Undefined)"
| "js_prop v k = Undefined"

text \<open>\<open>v[i]\<close> for a number \<open>i\<close>, on a value that is neither \<open>undefined\<close> nor \<open>null\<close>.\<close>

fun js_elem :: "jsval \<Rightarrow> nat \<Rightarrow> jsval" where
  "js_elem (Arr xs) i = (if i < length xs then xs ! i else Undefined)"
| "js_elem (Str s) i = (if i < length s then Str [s ! i] else Undefined)"
| "js_elem (Obj kvs) i = js_prop (Obj kvs) (decimal i)"
| "js_elem v i = Undefined"

fun nullish :: "jsval \<Rightarrow> bool" where
  "nullish Undefined = True"
| "nullish Null = True"
| "nullish v = False"

fun type_name :: "jsval \<Rightarrow> string" where
  "type_name Null = ''null''"
| "type_name v = ''undefined''"

definition cannot_read :: "jsval \<Rightarrow> string \<Rightarrow> js_error" where
  "cannot_read v k =
     new_TypeError (''Cannot read properties of '' @ type_name v @ '' (reading '' @ [CHR 0x27] @ k @ [CHR 0x27] @ '')'')"

text \<open>Property reads as the runtime does them: a read on \<open>undefined\<close> or \<open>null\<close> throws.\<close>

definition js_get :: "jsval \<Rightarrow> string \<Rightarrow> js_error + jsval" where
  "js_get v k = (if nullish v then Inl (cannot_read v k) else Inr (js_prop v k))"

text \<open>\<open>v?.k\<close>\<close>

definition js_opt_get :: "jsval \<Rightarrow> string \<Rightarrow> jsval" where
  "js_opt_get v k = (if nullish v then Undefined else js_prop v k)"

text \<open>
  Console output: the level and the arguments of one call. A template literal is listed
  piece by piece. \<open>J v\<close> is \<open>JSON.stringify(v, null, 2)\<close>.
\<close>

datatype log_level = LOG | WARN | ERROR

datatype log_arg = S string | V jsval | J jsval | N int | E js_error

type_synonym console = "(log_level \<times> log_arg list) list"

type_synonym bytes = "char list"

section \<open>What the outside world answers to one upload call\<close>

text \<open>
  The process environment, the file system and the remote provider are outside the
  program. One \<open>world\<close> holds what they answer during one call of \<open>processUpload\<close>:
  a rejected promise or a thrown error is \<open>Inl\<close>, a result is \<open>Inr\<close>.
  \<open>keyFilePath\<close> is \<open>path.resolve(__dirname, process.env.SERVICE_ACCOUNT_KEY)\<close>,
  \<open>readKey\<close> is \<open>JSON.parse(fs.readFileSync(keyFilePath, 'utf8'))\<close>, and the HTTP
  answers are the \<open>data\<close> of the response.
\<close>

record world =
  SERVICE_ACCOUNT_KEY :: "string option"
  FOLDER_ID :: "string option"
  ALBUM_ID :: "string option"
  keyFilePath :: string
  existsSync :: bool
  readKey :: "js_error + jsval"
  authorize :: "js_error + unit"
  files_create :: "js_error + jsval"
  permissions_create :: "js_error + unit"
  getAccessToken_a :: "js_error + jsval"
  uploads_post :: "js_error + jsval"
  getAccessToken_b :: "js_error + jsval"
  batchCreate_post :: "js_error + jsval"

text \<open>\<open>!process.env.X\<close>: unset or empty.\<close>

fun env_unset :: "string option \<Rightarrow> bool" where
  "env_unset None = True"
| "env_unset (Some v) = (v = [])"

definition path_resolve_undefined :: js_error where
  "path_resolve_undefined =
     new_TypeError ''The \"paths[1]\" argument must be of type string. Received undefined''"

section \<open>googleDrive.js\<close>

datatype jwt = JWT jsval jsval

datatype drive = DriveV3 "jwt option"

text \<open>The module-level variables \<open>authClient\<close> and \<open>driveService\<close>.\<close>

record drive_module =
  authClient :: "jwt option"
  driveService :: "drive option"

text \<open>
  \<open>initializeAuth\<close> is an async function with one \<open>await\<close>. Its first part runs
  synchronously inside the caller: it either settles at once (it threw, or the client is
  cached) or has assigned \<open>authClient\<close> and waits for \<open>authClient.authorize()\<close>.
\<close>

datatype init_progress =
    Settled "js_error + (jwt option \<times> drive option)"
  | Authorizing

definition initializeAuth_begin :: "drive_module \<Rightarrow> world \<Rightarrow> init_progress \<times> drive_module" where
  "initializeAuth_begin s w =
     (case authClient s of
        Some c \<Rightarrow> (Settled (Inr (authClient s, driveService s)), s)
      | None \<Rightarrow>
          (case SERVICE_ACCOUNT_KEY w of
             None \<Rightarrow> (Settled (Inl path_resolve_undefined), s)
           | Some p \<Rightarrow>
               if \<not> existsSync w
               then (Settled (Inl (new_Error (''Service account key file not found: '' @ keyFilePath w))), s)
               else (case readKey w of
                       Inl e \<Rightarrow> (Settled (Inl e), s)
                     | Inr serviceAccountKey \<Rightarrow>
                         if nullish serviceAccountKey
                         then (Settled (Inl (cannot_read serviceAccountKey ''client_email'')), s)
                         else (Authorizing,
                               s\<lparr>authClient := Some (JWT (js_prop serviceAccountKey ''client_email'')
                                                         (js_prop serviceAccountKey ''private_key''))\<rparr>))))"

text \<open>The part of \<open>initializeAuth\<close> after the \<open>await\<close>.\<close>

definition initializeAuth_end ::
  "init_progress \<Rightarrow> drive_module \<Rightarrow> world \<Rightarrow> (js_error + (jwt option \<times> drive option)) \<times> drive_module \<times> console" where
  "initializeAuth_end p s w =
     (case p of
        Settled r \<Rightarrow> (r, s, [])
      | Authorizing \<Rightarrow>
          (case authorize w of
             Inl e \<Rightarrow> (Inl e, s, [])
           | Inr u \<Rightarrow>
               (let s' = s\<lparr>driveService := Some (DriveV3 (authClient s))\<rparr>
                in (Inr (authClient s', driveService s'), s',
                    [(LOG, [S ''Google Drive API initialized successfully''])]))))"

definition initializeAuth ::
  "drive_module \<Rightarrow> world \<Rightarrow> (js_error + (jwt option \<times> drive option)) \<times> drive_module \<times> console" where
  "initializeAuth s w = (case initializeAuth_begin s w of (p, s1) \<Rightarrow> initializeAuth_end p s1 w)"

text \<open>
  The \<open>try\<close> block of \<open>processUpload\<close> from the \<open>FOLDER_ID\<close> check on, with the
  \<open>driveService\<close> that \<open>initializeAuth\<close> returned. The file's bytes, its content type
  and the description's timestamp only go into the request; the provider's answer is
  \<open>files_create\<close>. The inner \<open>try\<close> around \<open>permissions.create\<close> only chooses the log line.
\<close>

definition upload_to_folder :: "drive option \<Rightarrow> world \<Rightarrow> string \<Rightarrow> (js_error + jsval) \<times> console" where
  "upload_to_folder service w filename =
     (if env_unset (FOLDER_ID w) then (Inl (new_Error ''FOLDER_ID environment variable not set''), [])
      else
        (let l1 = [(LOG, [S ''Uploading to Google Drive: '', S filename])] in
         case service of
           None \<Rightarrow> (Inl (cannot_read Undefined ''files''), l1)
         | Some d \<Rightarrow>
             (case files_create w of
                Inl e \<Rightarrow> (Inl e, l1)
              | Inr file \<Rightarrow>
                  if nullish file then (Inl (cannot_read file ''id''), l1)
                  else
                    (let l2 = l1 @ [(LOG, [S ''Successfully uploaded: '', S filename, S '' - File ID: '',
                                           V (js_prop file ''id'')])];
                         l3 = l2 @ (case permissions_create w of
                                      Inr u \<Rightarrow> [(LOG, [S ''File '', S filename, S '' is now publicly accessible''])]
                                    | Inl permError \<Rightarrow>
                                        [(WARN, [S ''Could not make file public: '', S (message permError)])])
                     in (Inr (Obj [(''filename'', Str filename),
                                   (''status'', Str ''success''),
                                   (''fileId'', js_prop file ''id''),
                                   (''name'', js_prop file ''name''),
                                   (''webViewLink'', js_prop file ''webViewLink''),
                                   (''webContentLink'', js_prop file ''webContentLink''),
                                   (''size'', js_prop file ''size''),
                                   (''createdTime'', js_prop file ''createdTime'')]), l3)))))"

text \<open>The \<open>catch\<close> block of \<open>processUpload\<close>: what it logs and what it returns.\<close>

definition catch_log :: "string \<Rightarrow> js_error \<Rightarrow> console" where
  "catch_log filename error =
     (ERROR, [S ''Failed to upload '', S filename, S '':'', S (message error)]) #
     (case response error of
        None \<Rightarrow> []
      | Some r \<Rightarrow> [(ERROR, [S ''Error status:'', N (resp_status r)]),
                   (ERROR, [S ''Error data:'', J (resp_data r)])])"

definition response_data :: "js_error \<Rightarrow> jsval" where
  "response_data error = (case response error of None \<Rightarrow> Undefined | Some r \<Rightarrow> resp_data r)"

definition failure :: "string \<Rightarrow> js_error \<Rightarrow> jsval" where
  "failure filename error =
     Obj [(''filename'', Str filename),
          (''status'', Str ''error''),
          (''error'', Str (message error)),
          (''details'', response_data error)]"

text \<open>
  \<open>processUpload\<close> up to its first suspension: the first log line and the synchronous
  part of \<open>initializeAuth\<close>.
\<close>

definition processUpload_begin ::
  "drive_module \<Rightarrow> world \<Rightarrow> string \<Rightarrow> init_progress \<times> drive_module \<times> console" where
  "processUpload_begin s w filename =
     (case initializeAuth_begin s w of
        (p, s1) \<Rightarrow> (p, s1, [(LOG, [S ''Processing upload for: '', S filename])]))"

text \<open>The rest of the \<open>try\<close> block: what it returns or throws.\<close>

definition processUpload_try ::
  "init_progress \<Rightarrow> drive_module \<Rightarrow> world \<Rightarrow> string \<Rightarrow> (js_error + jsval) \<times> drive_module \<times> console" where
  "processUpload_try p s w filename =
     (case initializeAuth_end p s w of
        (Inl e, s1, l) \<Rightarrow> (Inl e, s1, l)
      | (Inr (client, service), s1, l) \<Rightarrow>
          (case upload_to_folder service w filename of (r, l2) \<Rightarrow> (r, s1, l @ l2)))"

text \<open>The rest of \<open>processUpload\<close>: the \<open>try\<close> block under its \<open>catch\<close>.\<close>

definition processUpload_end ::
  "init_progress \<Rightarrow> drive_module \<Rightarrow> world \<Rightarrow> string \<Rightarrow> (js_error + jsval) \<times> drive_module \<times> console" where
  "processUpload_end p s w filename =
     (case processUpload_try p s w filename of
        (Inr outcome, s1, l) \<Rightarrow> (Inr outcome, s1, l)
      | (Inl error, s1, l) \<Rightarrow> (Inr (failure filename error), s1, l @ catch_log filename error))"

text \<open>
  One call of \<open>processUpload(buffer, filename, mimeType)\<close> run to its end with no other
  call in between: the settled promise (\<open>Inl\<close> would be a rejection), the module
  variables afterwards and the console output.
\<close>

definition processUpload ::
  "drive_module \<Rightarrow> world \<Rightarrow> bytes \<Rightarrow> string \<Rightarrow> string \<Rightarrow> (js_error + jsval) \<times> drive_module \<times> console" where
  "processUpload s w buffer filename mimeType =
     (case processUpload_begin s w filename of
        (p, s1, l1) \<Rightarrow>
          (case processUpload_end p s1 w filename of (r, s2, l2) \<Rightarrow> (r, s2, l1 @ l2)))"

section \<open>googlePhotos.js\<close>

text \<open>
  \<open>String(v)\<close>, as a template literal converts an interpolated value. Numbers are
  printed in decimal digits, which is what JavaScript prints for an integer below
  \<open>10^21\<close> in magnitude (from there on it prints exponent notation, which is not
  modelled; the counts of a batch stay far below).
\<close>

fun join_comma :: "string list \<Rightarrow> string" where
  "join_comma [] = []"
| "join_comma [x] = x"
| "join_comma (x # y # ys) = x @ '','' @ join_comma (y # ys)"

fun to_string :: "jsval \<Rightarrow> string" where
  "to_string Undefined = ''undefined''"
| "to_string Null = ''null''"
| "to_string (Bool b) = (if b then ''true'' else ''false'')"
| "to_string (Num n) = (if n < 0 then ''-'' @ decimal (nat (- n)) else decimal (nat n))"
| "to_string (Str s) = s"
| "to_string (Arr xs) = join_comma (map (\<lambda>x. if nullish x then [] else to_string x) xs)"
| "to_string (Obj kvs) = ''[object Object]''"

text \<open>The module-level variable \<open>authClient\<close> of googlePhotos.js.\<close>

record photos_module =
  photos_authClient :: "jwt option"

text \<open>
  \<open>initializeAuth\<close> of googlePhotos.js, run to its end with no other call in between.
  \<open>authClient\<close> is assigned before \<open>authorize()\<close> is awaited.
\<close>

definition photos_initializeAuth ::
  "photos_module \<Rightarrow> world \<Rightarrow> (js_error + jwt option) \<times> photos_module \<times> console" where
  "photos_initializeAuth s w =
     (case photos_authClient s of
        Some c \<Rightarrow> (Inr (photos_authClient s), s, [])
      | None \<Rightarrow>
          (case SERVICE_ACCOUNT_KEY w of
             None \<Rightarrow> (Inl path_resolve_undefined, s, [])
           | Some p \<Rightarrow>
               if \<not> existsSync w
               then (Inl (new_Error (''Service account key file not found: '' @ keyFilePath w)), s, [])
               else (case readKey w of
                       Inl e \<Rightarrow> (Inl e, s, [])
                     | Inr serviceAccountKey \<Rightarrow>
                         if nullish serviceAccountKey
                         then (Inl (cannot_read serviceAccountKey ''client_email''), s, [])
                         else
                           (let s' = s\<lparr>photos_authClient :=
                                          Some (JWT (js_prop serviceAccountKey ''client_email'')
                                                    (js_prop serviceAccountKey ''private_key''))\<rparr>
                            in case authorize w of
                                 Inl e \<Rightarrow> (Inl e, s', [])
                               | Inr u \<Rightarrow>
                                   (Inr (photos_authClient s'), s',
                                    [(LOG, [S ''Google Photos API initialized successfully''])])))))"

text \<open>
  Lines 90 to 109: from the body of the \<open>batchCreate\<close> response to the returned object.
\<close>

definition media_item_outcome :: "jsval \<Rightarrow> string \<Rightarrow> (js_error + jsval) \<times> console" where
  "media_item_outcome data filename =
     (case js_get data ''newMediaItemResults'' of
        Inl e \<Rightarrow> (Inl e, [])
      | Inr results \<Rightarrow>
          if \<not> truthy results \<or> js_prop results ''length'' = Num 0
          then (Inl (new_Error ''No media item results returned''), [])
          else
            (let result = js_elem results 0 in
             case js_get result ''status'' of
               Inl e \<Rightarrow> (Inl e, [])
             | Inr status \<Rightarrow>
                 if truthy status \<and> js_prop status ''message'' \<noteq> Str ''Success''
                 then (Inl (new_Error (''Upload failed: '' @ to_string (js_prop status ''message''))), [])
                 else
                   (Inr (Obj [(''filename'', Str filename),
                              (''status'', Str ''success''),
                              (''mediaItemId'', js_opt_get (js_prop result ''mediaItem'') ''id''),
                              (''productUrl'', js_opt_get (js_prop result ''mediaItem'') ''productUrl'')]),
                    [(LOG, [S ''Successfully uploaded: '', S filename, S '' - Media ID: '',
                            V (js_opt_get (js_prop result ''mediaItem'') ''id'')])])))"

text \<open>
  The \<open>try\<close> block of \<open>processUpload\<close> after \<open>initializeAuth\<close>: phase (a) posts the raw
  bytes for an upload token, phase (b) creates the media item. Each phase first asks the
  client for an access token.
\<close>

definition upload_to_album :: "world \<Rightarrow> string \<Rightarrow> (js_error + jsval) \<times> console" where
  "upload_to_album w filename =
     (if env_unset (ALBUM_ID w) then (Inl (new_Error ''ALBUM_ID environment variable not set''), [])
      else
        (let l1 = [(LOG, [S ''Uploading raw bytes for: '', S filename])] in
         case getAccessToken_a w of
           Inl e \<Rightarrow> (Inl e, l1)
         | Inr t1 \<Rightarrow>
             (case js_get t1 ''token'' of
                Inl e \<Rightarrow> (Inl e, l1)
              | Inr token1 \<Rightarrow>
                  (case uploads_post w of
                     Inl e \<Rightarrow> (Inl e, l1)
                   | Inr uploadToken \<Rightarrow>
                       (let l2 = l1 @ [(LOG, [S ''Got upload token for: '', S filename]),
                                       (LOG, [S ''Creating media item for: '', S filename])] in
                        case getAccessToken_b w of
                          Inl e \<Rightarrow> (Inl e, l2)
                        | Inr t2 \<Rightarrow>
                            (case js_get t2 ''token'' of
                               Inl e \<Rightarrow> (Inl e, l2)
                             | Inr token2 \<Rightarrow>
                                 (case batchCreate_post w of
                                    Inl e \<Rightarrow> (Inl e, l2)
                                  | Inr data \<Rightarrow>
                                      (case media_item_outcome data filename of
                                         (r, l3) \<Rightarrow> (r, l2 @ l3)))))))))"

definition photos_catch_log :: "string \<Rightarrow> js_error \<Rightarrow> console" where
  "photos_catch_log filename error =
     (ERROR, [S ''Failed to upload '', S filename, S '':'', S (message error)]) #
     (case response error of
        None \<Rightarrow> []
      | Some r \<Rightarrow> [(ERROR, [S ''Error status:'', N (resp_status r)]),
                   (ERROR, [S ''Error data:'', J (resp_data r)]),
                   (ERROR, [S ''Error headers:'', V (resp_headers r)])])"

definition photos_processUpload_try ::
  "photos_module \<Rightarrow> world \<Rightarrow> string \<Rightarrow> (js_error + jsval) \<times> photos_module \<times> console" where
  "photos_processUpload_try s w filename =
     (let l0 = [(LOG, [S ''Processing upload for: '', S filename])] in
      case photos_initializeAuth s w of
        (Inl e, s1, l) \<Rightarrow> (Inl e, s1, l0 @ l)
      | (Inr client, s1, l) \<Rightarrow>
          (case upload_to_album w filename of (r, l2) \<Rightarrow> (r, s1, l0 @ l @ l2)))"

text \<open>
  One call of \<open>processUpload(buffer, filename, mimeType)\<close> of googlePhotos.js run to its
  end with no other call in between.
\<close>

definition photos_processUpload ::
  "photos_module \<Rightarrow> world \<Rightarrow> bytes \<Rightarrow> string \<Rightarrow> string \<Rightarrow> (js_error + jsval) \<times> photos_module \<times> console" where
  "photos_processUpload s w buffer filename mimeType =
     (case photos_processUpload_try s w filename of
        (Inr outcome, s1, l) \<Rightarrow> (Inr outcome, s1, l)
      | (Inl error, s1, l) \<Rightarrow> (Inr (failure filename error), s1, l @ photos_catch_log filename error))"

section \<open>server.js: multer configuration\<close>

text \<open>One file part of the multipart body, as multer hands it to the program.\<close>

record part =
  fieldname :: string
  originalname :: string
  mimetype :: string
  buffer :: bytes

definition allowedTypes :: "string list" where
  "allowedTypes =
     [''image/jpeg'', ''image/jpg'', ''image/png'', ''image/gif'', ''image/webp'',
      ''video/mp4'', ''video/quicktime'', ''video/x-msvideo'']"

definition fileFilter :: "part \<Rightarrow> js_error + bool" where
  "fileFilter file =
     (if List.member allowedTypes (mimetype file) then Inr True
      else Inl (new_Error ''Only images (JPEG, PNG, GIF, WebP) and videos (MP4, MOV, AVI) are allowed''))"

definition limits_fileSize :: nat where
  "limits_fileSize = 500 * 1024 * 1024"

definition limits_files :: nat where
  "limits_files = 50"

text \<open>
  multer's error class: the message belongs to the code (a code multer does not know
  has no message; the middleware below raises three of the codes).
\<close>

definition MulterError :: "string \<Rightarrow> js_error" where
  "MulterError c =
     \<lparr>message = (if c = ''LIMIT_PART_COUNT'' then ''Too many parts''
                  else if c = ''LIMIT_FILE_SIZE'' then ''File too large''
                  else if c = ''LIMIT_FILE_COUNT'' then ''Too many files''
                  else if c = ''LIMIT_FIELD_KEY'' then ''Field name too long''
                  else if c = ''LIMIT_FIELD_VALUE'' then ''Field value too long''
                  else if c = ''LIMIT_FIELD_COUNT'' then ''Too many fields''
                  else if c = ''LIMIT_UNEXPECTED_FILE'' then ''Unexpected field''
                  else if c = ''MISSING_FIELD_NAME'' then ''Field name missing''
                  else []),
      response = None, multer_code = Some c\<rparr>"

text \<open>
  The middleware \<open>upload.array('photos', 50)\<close> under the configured limits, on the file
  parts in the order of the body (every part has a file name); \<open>n\<close> parts came before.
  multer reads the body as a stream and passes the first error it meets to \<open>next\<close>: the
  count limit when a part beyond \<open>limits.files\<close> begins, an unexpected field name (or
  more than the 50 parts allowed under the name), the error of \<open>fileFilter\<close>, the size
  limit while the part's content is read (the stream reports the limit as soon as the
  content reaches \<open>limits.fileSize\<close> bytes, so a part of exactly that size is rejected too).
  Without an error the parts become \<open>req.files\<close>.
\<close>

fun upload_array :: "part list \<Rightarrow> nat \<Rightarrow> js_error + part list" where
  "upload_array [] n = Inr []"
| "upload_array (file # rest) n =
     (if limits_files \<le> n then Inl (MulterError ''LIMIT_FILE_COUNT'')
      else if fieldname file \<noteq> ''photos'' \<or> 50 \<le> n then Inl (MulterError ''LIMIT_UNEXPECTED_FILE'')
      else
        (case fileFilter file of
           Inl e \<Rightarrow> Inl e
         | Inr accept \<Rightarrow>
             if limits_fileSize \<le> length (buffer file) then Inl (MulterError ''LIMIT_FILE_SIZE'')
             else (case upload_array rest (Suc n) of
                     Inl e \<Rightarrow> Inl e
                   | Inr files \<Rightarrow> Inr (file # files))))"

section \<open>server.js: the upload handler\<close>

datatype body = Json jsval | File string

text \<open>
  What the client gets: a status with a body, or, when no layer of the application
  answered, whatever Express's final handler makes of the pending error.
\<close>

datatype reply = Reply nat body | Unhandled "js_error option"

text \<open>
  \<open>files.map(file => processUpload(...))\<close>: every call runs up to its first suspension
  before the next call starts, so each call sees the module variables as the calls
  before it left them. \<open>ws i\<close> is what the world answers to call \<open>i\<close>.
\<close>

fun start_calls ::
  "drive_module \<Rightarrow> (nat \<Rightarrow> world) \<Rightarrow> nat \<Rightarrow> part list \<Rightarrow> init_progress list \<times> drive_module \<times> console" where
  "start_calls s ws i [] = ([], s, [])"
| "start_calls s ws i (file # rest) =
     (case processUpload_begin s (ws i) (originalname file) of
        (p, s1, l1) \<Rightarrow>
          (case start_calls s1 ws (Suc i) rest of
             (ps, s2, l2) \<Rightarrow> (p # ps, s2, l1 @ l2)))"

text \<open>
  The suspended calls settle in the order \<open>order\<close>. The promise of call \<open>i\<close> settles
  into slot \<open>i\<close>. (Each call's remaining steps are run together; between the calls
  they share only the assignment to \<open>driveService\<close> and the console.)
\<close>

fun settle_calls ::
  "nat list \<Rightarrow> init_progress list \<Rightarrow> (nat \<Rightarrow> world) \<Rightarrow> part list \<Rightarrow> drive_module \<Rightarrow>
     (js_error + jsval) option list \<Rightarrow> (js_error + jsval) option list \<times> drive_module \<times> console" where
  "settle_calls [] ps ws files s slots = (slots, s, [])"
| "settle_calls (i # order) ps ws files s slots =
     (case processUpload_end (ps ! i) s (ws i) (originalname (files ! i)) of
        (r, s1, l1) \<Rightarrow>
          (case settle_calls order ps ws files s1 (slots[i := Some r]) of
             (slots', s2, l2) \<Rightarrow> (slots', s2, l1 @ l2)))"

text \<open>An order in which \<open>n\<close> calls settle: each of \<open>0, ..., n - 1\<close> once.\<close>

definition is_order :: "nat \<Rightarrow> nat list \<Rightarrow> bool" where
  "is_order n order = (length order = n \<and> distinct order \<and> list_all (\<lambda>i. i < n) order)"

text \<open>
  \<open>Promise.all\<close>: rejected with the reason of the first promise that rejects; fulfilled
  with the values by position once every promise is fulfilled; pending otherwise.
\<close>

fun first_rejection :: "nat list \<Rightarrow> (js_error + 'a) option list \<Rightarrow> js_error option" where
  "first_rejection [] slots = None"
| "first_rejection (i # order) slots =
     (case slots ! i of Some (Inl e) \<Rightarrow> Some e | other \<Rightarrow> first_rejection order slots)"

fun fulfilled :: "(js_error + 'a) option list \<Rightarrow> 'a list option" where
  "fulfilled [] = Some []"
| "fulfilled (Some (Inr v) # slots) = (case fulfilled slots of Some vs \<Rightarrow> Some (v # vs) | None \<Rightarrow> None)"
| "fulfilled (other # slots) = None"

definition Promise_all :: "nat list \<Rightarrow> (js_error + 'a) option list \<Rightarrow> (js_error + 'a list) option" where
  "Promise_all order slots =
     (case first_rejection order slots of
        Some e \<Rightarrow> Some (Inl e)
      | None \<Rightarrow> (case fulfilled slots of Some vs \<Rightarrow> Some (Inr vs) | None \<Rightarrow> None))"

text \<open>
  \<open>await Promise.all(files.map(...))\<close> for a non-empty \<open>files\<close>: \<open>None\<close> when the
  handler stays suspended.
\<close>

definition await_uploads ::
  "drive_module \<Rightarrow> (nat \<Rightarrow> world) \<Rightarrow> nat list \<Rightarrow> part list \<Rightarrow>
     ((js_error + jsval list) \<times> drive_module \<times> console) option" where
  "await_uploads s ws order files =
     (if \<not> is_order (length files) order then None
      else
        (case start_calls s ws 0 files of
           (ps, s1, l1) \<Rightarrow>
             (case settle_calls order ps ws files s1 (replicate (length files) None) of
                (slots, s2, l2) \<Rightarrow>
                  (case Promise_all order slots of
                     None \<Rightarrow> None
                   | Some r \<Rightarrow> Some (r, s2, l1 @ l2)))))"

text \<open>\<open>results.filter(r => r.status === 'success')\<close>; the callback reads \<open>r.status\<close>.\<close>

fun filter_success :: "jsval list \<Rightarrow> js_error + jsval list" where
  "filter_success [] = Inr []"
| "filter_success (r # rs) =
     (case js_get r ''status'' of
        Inl e \<Rightarrow> Inl e
      | Inr status \<Rightarrow>
          (case filter_success rs of
             Inl e \<Rightarrow> Inl e
           | Inr kept \<Rightarrow> Inr (if status = Str ''success'' then r # kept else kept)))"

text \<open>Lines 88 and 89: \<open>successCount\<close> and \<open>failureCount\<close>.\<close>

definition counts :: "jsval list \<Rightarrow> js_error + (int \<times> int)" where
  "counts results =
     (case filter_success results of
        Inl e \<Rightarrow> Inl e
      | Inr kept \<Rightarrow>
          (let successCount = int (length kept);
               failureCount = int (length results) - successCount
           in Inr (successCount, failureCount)))"

definition summary :: "int \<Rightarrow> int \<Rightarrow> string" where
  "summary successCount failureCount =
     to_string (Num successCount) @ '' file'' @ (if successCount > 1 then ''s'' else []) @
     '' uploaded successfully to Google Drive'' @
     (if failureCount > 0 then '', '' @ to_string (Num failureCount) @ '' failed'' else [])"

text \<open>Lines 88 to 109: from \<open>results\<close> to the response.\<close>

definition respond :: "jsval list \<Rightarrow> (js_error + reply) \<times> console" where
  "respond results =
     (case counts results of
        Inl e \<Rightarrow> (Inl e, [])
      | Inr (successCount, failureCount) \<Rightarrow>
          (let l = [(LOG, [S ''Upload completed: '', N successCount, S '' success, '',
                           N failureCount, S '' failures''])]
           in if successCount = 0
              then (Inr (Reply 500 (Json (Obj [(''success'', Bool False),
                                                (''error'', Str ''All uploads failed'')]))), l)
              else (Inr (Reply 200 (Json (Obj [(''success'', Bool True),
                                                (''message'', Str (summary successCount failureCount)),
                                                (''results'', Arr results)]))), l)))"

definition no_files_reply :: reply where
  "no_files_reply = Reply 400 (Json (Obj [(''success'', Bool False), (''error'', Str ''No files uploaded'')]))"

text \<open>The \<open>catch\<close> block of the handler.\<close>

definition upload_failed :: "js_error \<Rightarrow> reply \<times> console" where
  "upload_failed error =
     (Reply 500 (Json (Obj [(''success'', Bool False),
                            (''error'', Str (''Upload failed: '' @ message error))])),
      [(ERROR, [S ''Upload error:'', E error])])"

text \<open>
  The async handler of \<open>POST /upload\<close> on \<open>req.files\<close> (\<open>None\<close>: undefined, the body
  was not multipart). \<open>None\<close> as result: the handler never responds.
\<close>

definition upload_handler ::
  "drive_module \<Rightarrow> (nat \<Rightarrow> world) \<Rightarrow> nat list \<Rightarrow> part list option \<Rightarrow> (reply \<times> drive_module \<times> console) option" where
  "upload_handler s ws order req_files =
     (let l0 = [(LOG, [S ''Received upload request with '',
                       N (case req_files of None \<Rightarrow> 0 | Some fs \<Rightarrow> int (length fs)), S '' files''])]
      in case req_files of
           None \<Rightarrow> Some (no_files_reply, s, l0)
         | Some files \<Rightarrow>
             if files = [] then Some (no_files_reply, s, l0)
             else
               (case await_uploads s ws order files of
                  None \<Rightarrow> None
                | Some (Inl error, s1, l1) \<Rightarrow>
                    (case upload_failed error of (r, l2) \<Rightarrow> Some (r, s1, l0 @ l1 @ l2))
                | Some (Inr results, s1, l1) \<Rightarrow>
                    (case respond results of
                       (Inl error, l2) \<Rightarrow>
                         (case upload_failed error of (r, l3) \<Rightarrow> Some (r, s1, l0 @ l1 @ l2 @ l3))
                     | (Inr r, l2) \<Rightarrow> Some (r, s1, l0 @ l1 @ l2))))"

section \<open>server.js: the application\<close>

datatype http_method = GET | HEAD | POST | OTHER

text \<open>Which of the registered paths the request's path matches.\<close>

datatype route = Root | Upload | Health | Elsewhere

record request =
  req_method :: http_method
  req_route :: route
  multipart :: "part list option"

text \<open>
  What is outside the program during one request: whether \<open>express.static\<close> finds a
  file for the path, whether \<open>res.sendFile\<close> fails, the clock, and for the uploads the
  answers to each call and the order in which the calls settle.
\<close>

record server_world =
  static_file :: "string option"
  sendFile_error :: "js_error option"
  now_iso :: string
  upload_worlds :: "nat \<Rightarrow> world"
  settle_order :: "nat list"

text \<open>
  The layers of the application in the order in which server.js registers them
  (lines 38, 41, 46, 71, 121, 131 and 136).
\<close>

datatype layer = StaticPublic | GetRoot | MulterErrors | PostUpload | GetHealth | NotFound | GlobalErrors

definition app_stack :: "layer list" where
  "app_stack = [StaticPublic, GetRoot, MulterErrors, PostUpload, GetHealth, NotFound, GlobalErrors]"

text \<open>A layer registered with a four-argument function handles errors, any other requests.\<close>

fun is_error_layer :: "layer \<Rightarrow> bool" where
  "is_error_layer MulterErrors = True"
| "is_error_layer GlobalErrors = True"
| "is_error_layer l = False"

fun reads :: "http_method \<Rightarrow> bool" where
  "reads GET = True"
| "reads HEAD = True"
| "reads m = False"

fun matches :: "layer \<Rightarrow> request \<Rightarrow> bool" where
  "matches GetRoot req = (req_route req = Root \<and> reads (req_method req))"
| "matches PostUpload req = (req_route req = Upload \<and> req_method req = POST)"
| "matches GetHealth req = (req_route req = Health \<and> reads (req_method req))"
| "matches l req = True"

datatype step = Respond reply | Next | NextErr js_error

fun starts_with :: "string \<Rightarrow> string \<Rightarrow> bool" where
  "starts_with s [] = True"
| "starts_with [] (c # cs) = False"
| "starts_with (x # xs) (c # cs) = (x = c \<and> starts_with xs cs)"

fun str_includes :: "string \<Rightarrow> string \<Rightarrow> bool" where
  "str_includes [] sub = (sub = [])"
| "str_includes (x # xs) sub = (starts_with (x # xs) sub \<or> str_includes xs sub)"

text \<open>The error-handling middleware of lines 46 to 68.\<close>

definition multer_errors :: "js_error \<Rightarrow> step" where
  "multer_errors error =
     (if multer_code error = Some ''LIMIT_FILE_SIZE''
      then Respond (Reply 400 (Json (Obj [(''success'', Bool False),
             (''error'', Str (''Fi'' @ [CHR 0xC8, CHR 0x99] @
                ''ier prea mare. Maxim 10MB pentru fotografii, 500MB pentru videoclipuri.''))])))
      else if multer_code error = Some ''LIMIT_FILE_COUNT''
      then Respond (Reply 400 (Json (Obj [(''success'', Bool False),
             (''error'', Str (''Prea multe fi'' @ [CHR 0xC8, CHR 0x99] @ ''iere. Maxim 50 de fi'' @
                [CHR 0xC8, CHR 0x99] @ ''iere per '' @ [CHR 0xC3, CHR 0xAE] @ ''nc'' @
                [CHR 0xC4, CHR 0x83] @ ''rcare.''))])))
      else if str_includes (message error) ''Only images'' \<and> str_includes (message error) ''are allowed''
      then Respond (Reply 400 (Json (Obj [(''success'', Bool False),
             (''error'', Str ''Please upload supported file types: JPEG, PNG, GIF, WebP images or MP4, MOV, AVI videos.'')])))
      else NextErr error)"

text \<open>The global error handler of lines 136 to 142.\<close>

definition global_errors :: "js_error \<Rightarrow> step \<times> console" where
  "global_errors error =
     (Respond (Reply 500 (Json (Obj [(''success'', Bool False), (''error'', Str ''Internal server error'')]))),
      [(ERROR, [S ''Unhandled error:'', E error])])"

fun run_error_layer :: "layer \<Rightarrow> js_error \<Rightarrow> step \<times> console" where
  "run_error_layer MulterErrors error = (multer_errors error, [])"
| "run_error_layer GlobalErrors error = global_errors error"
| "run_error_layer l error = (NextErr error, [])"

text \<open>
  The route \<open>POST /upload\<close>: multer's middleware, then the handler. A body that is not
  multipart leaves \<open>req.files\<close> undefined.
\<close>

definition post_upload ::
  "drive_module \<Rightarrow> server_world \<Rightarrow> request \<Rightarrow> (step \<times> drive_module \<times> console) option" where
  "post_upload s sw req =
     (case multipart req of
        None \<Rightarrow>
          (case upload_handler s (upload_worlds sw) (settle_order sw) None of
             None \<Rightarrow> None
           | Some (r, s1, l) \<Rightarrow> Some (Respond r, s1, l))
      | Some parts \<Rightarrow>
          (case upload_array parts 0 of
             Inl e \<Rightarrow> Some (NextErr e, s, [])
           | Inr files \<Rightarrow>
               (case upload_handler s (upload_worlds sw) (settle_order sw) (Some files) of
                  None \<Rightarrow> None
                | Some (r, s1, l) \<Rightarrow> Some (Respond r, s1, l))))"

fun run_layer ::
  "layer \<Rightarrow> drive_module \<Rightarrow> server_world \<Rightarrow> request \<Rightarrow> (step \<times> drive_module \<times> console) option" where
  "run_layer StaticPublic s sw req =
     (if reads (req_method req)
      then (case static_file sw of
              Some f \<Rightarrow> Some (Respond (Reply 200 (File f)), s, [])
            | None \<Rightarrow> Some (Next, s, []))
      else Some (Next, s, []))"
| "run_layer GetRoot s sw req =
     (case sendFile_error sw of
        None \<Rightarrow> Some (Respond (Reply 200 (File ''public/index.html'')), s, [])
      | Some e \<Rightarrow> Some (NextErr e, s, []))"
| "run_layer PostUpload s sw req = post_upload s sw req"
| "run_layer GetHealth s sw req =
     Some (Respond (Reply 200 (Json (Obj [(''status'', Str ''OK''),
                                          (''timestamp'', Str (now_iso sw)),
                                          (''service'', Str ''Robert & Adina Wedding Photo Uploader''),
                                          (''version'', Str ''1.0.0'')]))), s, [])"
| "run_layer NotFound s sw req =
     Some (Respond (Reply 404 (Json (Obj [(''error'', Str ''Not found'')]))), s, [])"
| "run_layer l s sw req = Some (Next, s, [])"

text \<open>
  Express walks the layers from the current one onwards, never back. With no error
  pending it runs the next request layer that matches; a layer that calls \<open>next(err)\<close>
  leaves an error pending, and then only the error layers that follow are run.
\<close>

fun router ::
  "layer list \<Rightarrow> js_error option \<Rightarrow> drive_module \<Rightarrow> server_world \<Rightarrow> request \<Rightarrow>
     (reply \<times> drive_module \<times> console) option" where
  "router [] pending s sw req = Some (Unhandled pending, s, [])"
| "router (l # ls) None s sw req =
     (if is_error_layer l then router ls None s sw req
      else if matches l req then
        (case run_layer l s sw req of
           None \<Rightarrow> None
         | Some (Respond r, s1, lg) \<Rightarrow> Some (r, s1, lg)
         | Some (Next, s1, lg) \<Rightarrow>
             (case router ls None s1 sw req of
                None \<Rightarrow> None
              | Some (r, s2, lg2) \<Rightarrow> Some (r, s2, lg @ lg2))
         | Some (NextErr e, s1, lg) \<Rightarrow>
             (case router ls (Some e) s1 sw req of
                None \<Rightarrow> None
              | Some (r, s2, lg2) \<Rightarrow> Some (r, s2, lg @ lg2)))
      else router ls None s sw req)"
| "router (l # ls) (Some error) s sw req =
     (if is_error_layer l then
        (case run_error_layer l error of
           (Respond r, lg) \<Rightarrow> Some (r, s, lg)
         | (Next, lg) \<Rightarrow>
             (case router ls None s sw req of
                None \<Rightarrow> None
              | Some (r, s2, lg2) \<Rightarrow> Some (r, s2, lg @ lg2))
         | (NextErr e, lg) \<Rightarrow>
             (case router ls (Some e) s sw req of
                None \<Rightarrow> None
              | Some (r, s2, lg2) \<Rightarrow> Some (r, s2, lg @ lg2)))
      else router ls (Some error) s sw req)"

text \<open>One request to the application.\<close>

definition app :: "drive_module \<Rightarrow> server_world \<Rightarrow> request \<Rightarrow> (reply \<times> drive_module \<times> console) option" where
  "app s sw req = router app_stack None s sw req"

section \<open>Vocabulary of the properties\<close>

text \<open>An outcome object for the file \<open>f\<close>: it carries the name and one of the two tags.\<close>

fun is_str :: "jsval \<Rightarrow> bool" where
  "is_str (Str s) = True"
| "is_str v = False"

definition is_outcome :: "string \<Rightarrow> jsval \<Rightarrow> bool" where
  "is_outcome f out =
     (js_prop out ''filename'' = Str f \<and> \<not> nullish out \<and>
      (js_prop out ''status'' = Str ''success'' \<or>
       js_prop out ''status'' = Str ''error'' \<and> is_str (js_prop out ''error'')))"

text \<open>What the \<open>catch\<close> block of one call catches, if anything.\<close>

definition caught :: "drive_module \<Rightarrow> world \<Rightarrow> string \<Rightarrow> js_error option" where
  "caught s w filename =
     (case processUpload_begin s w filename of
        (p, s1, l1) \<Rightarrow>
          (case processUpload_try p s1 w filename of
             (Inl e, s2, l2) \<Rightarrow> Some e
           | (Inr v, s2, l2) \<Rightarrow> None))"

definition photos_caught :: "photos_module \<Rightarrow> world \<Rightarrow> string \<Rightarrow> js_error option" where
  "photos_caught s w filename =
     (case photos_processUpload_try s w filename of
        (Inl e, s2, l2) \<Rightarrow> Some e
      | (Inr v, s2, l2) \<Rightarrow> None)"

text \<open>
  What the promise of a suspended call settles to. It does not depend on the module
  variables at that moment (lemma \<open>settled_eq\<close>).
\<close>

definition settled :: "init_progress \<Rightarrow> world \<Rightarrow> string \<Rightarrow> js_error + jsval" where
  "settled p w f = fst (processUpload_end p \<lparr>authClient = None, driveService = None\<rparr> w f)"

text \<open>The outcomes of the calls of one batch, by the position of the part.\<close>

definition outcomes :: "drive_module \<Rightarrow> (nat \<Rightarrow> world) \<Rightarrow> part list \<Rightarrow> jsval list" where
  "outcomes s ws files =
     map (\<lambda>i. projr (settled (fst (start_calls s ws 0 files) ! i) (ws i) (originalname (files ! i))))
       [0..<length files]"

definition count_status :: "string \<Rightarrow> jsval list \<Rightarrow> int" where
  "count_status tag results = int (length (filter (\<lambda>r. js_prop r ''status'' = Str tag) results))"

definition upload_request :: "part list \<Rightarrow> request" where
  "upload_request parts = \<lparr>req_method = POST, req_route = Upload, multipart = Some parts\<rparr>"

definition internal_server_error :: reply where
  "internal_server_error =
     Reply 500 (Json (Obj [(''success'', Bool False), (''error'', Str ''Internal server error'')]))"

definition all_uploads_failed :: reply where
  "all_uploads_failed =
     Reply 500 (Json (Obj [(''success'', Bool False), (''error'', Str ''All uploads failed'')]))"

definition success_envelope :: "string \<Rightarrow> jsval list \<Rightarrow> reply" where
  "success_envelope msg results =
     Reply 200 (Json (Obj [(''success'', Bool True), (''message'', Str msg), (''results'', Arr results)]))"

text \<open>The JSON body of a reply, and its \<open>results\<close> property.\<close>

fun reply_json :: "reply \<Rightarrow> jsval" where
  "reply_json (Reply code (Json v)) = v"
| "reply_json r = Undefined"

definition reply_results :: "reply \<Rightarrow> jsval" where
  "reply_results r = js_opt_get (reply_json r) ''results''"

text \<open>
  The two-phase variant: the steps of one call that can fail. Each is read off the
  world's answers, whether or not the call got as far as asking.
\<close>

definition init_fails :: "photos_module \<Rightarrow> world \<Rightarrow> bool" where
  "init_fails s w = isl (fst (photos_initializeAuth s w))"

fun token_fails :: "js_error + jsval \<Rightarrow> bool" where
  "token_fails (Inl e) = True"
| "token_fails (Inr t) = nullish t"

definition phase_a_fails :: "world \<Rightarrow> bool" where
  "phase_a_fails w = isl (uploads_post w)"

definition phase_b_fails :: "world \<Rightarrow> bool" where
  "phase_b_fails w = isl (batchCreate_post w)"

text \<open>The \<open>newMediaItemResults\<close> of the response of phase (b), and its first item.\<close>

definition item_results :: "world \<Rightarrow> jsval" where
  "item_results w = (case batchCreate_post w of Inl e \<Rightarrow> Undefined | Inr data \<Rightarrow> js_opt_get data ''newMediaItemResults'')"

definition has_first_item :: "world \<Rightarrow> bool" where
  "has_first_item w =
     (truthy (item_results w) \<and> js_prop (item_results w) ''length'' \<noteq> Num 0 \<and>
      \<not> nullish (js_elem (item_results w) 0))"

text \<open>Phase (b) answered, but with no first item to read.\<close>

definition no_first_item :: "world \<Rightarrow> bool" where
  "no_first_item w = (\<not> isl (batchCreate_post w) \<and> \<not> has_first_item w)"

text \<open>The first item carries a status whose message is not \<open>Success\<close>.\<close>

definition status_not_success :: "world \<Rightarrow> bool" where
  "status_not_success w =
     (has_first_item w \<and>
      truthy (js_prop (js_elem (item_results w) 0) ''status'') \<and>
      js_prop (js_prop (js_elem (item_results w) 0) ''status'') ''message'' \<noteq> Str ''Success'')"

section \<open>Example inputs\<close>

definition key_json :: jsval where
  "key_json = Obj [(''client_email'', Str ''uploader@example.iam.gserviceaccount.com''),
                   (''private_key'', Str ''PRIVATE KEY'')]"

definition created_file :: jsval where
  "created_file = Obj [(''id'', Str ''file-1''), (''name'', Str ''a.jpg''),
                       (''webViewLink'', Str ''https://drive.example/file-1/view''),
                       (''size'', Str ''3''), (''createdTime'', Str ''2025-06-01T10:00:00.000Z'')]"

definition access_token :: jsval where
  "access_token = Obj [(''token'', Str ''ya29.token'')]"

definition media_item :: jsval where
  "media_item = Obj [(''id'', Str ''media-1''), (''productUrl'', Str ''https://photos.example/media-1'')]"

definition created_items :: jsval where
  "created_items =
     Obj [(''newMediaItemResults'',
           Arr [Obj [(''uploadToken'', Str ''upload-token''),
                     (''status'', Obj [(''message'', Str ''Success'')]),
                     (''mediaItem'', media_item)]])]"

text \<open>A world in which everything is configured and every remote call succeeds.\<close>

definition world_ok :: world where
  "world_ok =
     \<lparr>SERVICE_ACCOUNT_KEY = Some ''./service-account-key.json'',
      FOLDER_ID = Some ''folder-1'',
      ALBUM_ID = Some ''album-1'',
      keyFilePath = ''/app/service-account-key.json'',
      existsSync = True,
      readKey = Inr key_json,
      authorize = Inr (),
      files_create = Inr created_file,
      permissions_create = Inr (),
      getAccessToken_a = Inr access_token,
      uploads_post = Inr (Str ''upload-token''),
      getAccessToken_b = Inr access_token,
      batchCreate_post = Inr created_items\<rparr>"

text \<open>An error of the HTTP client with the provider's payload.\<close>

definition quota_exceeded :: js_error where
  "quota_exceeded =
     \<lparr>message = ''Request failed with status code 403'',
      response = Some \<lparr>resp_status = 403,
                       resp_data = Obj [(''error'', Str ''quota exceeded'')],
                       resp_headers = Obj []\<rparr>,
      multer_code = None\<rparr>"

definition fresh :: drive_module where
  "fresh = \<lparr>authClient = None, driveService = None\<rparr>"

definition the_client :: jwt where
  "the_client = JWT (Str ''uploader@example.iam.gserviceaccount.com'') (Str ''PRIVATE KEY'')"

definition ready :: drive_module where
  "ready = \<lparr>authClient = Some the_client, driveService = Some (DriveV3 (Some the_client))\<rparr>"

definition photos_fresh :: photos_module where
  "photos_fresh = \<lparr>photos_authClient = None\<rparr>"

definition photo :: "string \<Rightarrow> part" where
  "photo name = \<lparr>fieldname = ''photos'', originalname = name, mimetype = ''image/jpeg'', buffer = ''abc''\<rparr>"

definition notes_txt :: part where
  "notes_txt = \<lparr>fieldname = ''photos'', originalname = ''notes.txt'', mimetype = ''text/plain'', buffer = ''abc''\<rparr>"

text \<open>A request's surroundings: the answers \<open>ws i\<close> to call \<open>i\<close>, the calls settling in \<open>order\<close>.\<close>

definition surroundings :: "(nat \<Rightarrow> world) \<Rightarrow> nat list \<Rightarrow> server_world" where
  "surroundings ws order =
     \<lparr>static_file = None, sendFile_error = None, now_iso = ''2025-06-01T10:00:00.000Z'',
      upload_worlds = ws, settle_order = order\<rparr>"

text \<open>The first call is answered as in \<open>world_ok\<close>, every later call meets the quota.\<close>

definition first_ok :: "nat \<Rightarrow> world" where
  "first_ok i = (if i = 0 then world_ok else world_ok\<lparr>files_create := Inl quota_exceeded\<rparr>)"


definition all_ok :: "nat \<Rightarrow> world" where
  "all_ok i = world_ok"

text \<open>Every call meets the quota.\<close>

definition none_ok :: "nat \<Rightarrow> world" where
  "none_ok i = world_ok\<lparr>files_create := Inl quota_exceeded\<rparr>"

text \<open>The two outcomes of the examples.\<close>

definition stored :: "string \<Rightarrow> jsval" where
  "stored name =
     Obj [(''filename'', Str name), (''status'', Str ''success''), (''fileId'', Str ''file-1''),
          (''name'', Str ''a.jpg''), (''webViewLink'', Str ''https://drive.example/file-1/view''),
          (''webContentLink'', Undefined), (''size'', Str ''3''),
          (''createdTime'', Str ''2025-06-01T10:00:00.000Z'')]"

definition refused :: "string \<Rightarrow> jsval" where
  "refused name =
     Obj [(''filename'', Str name), (''status'', Str ''error''),
          (''error'', Str ''Request failed with status code 403''),
          (''details'', Obj [(''error'', Str ''quota exceeded'')])]"

section \<open>Lemmas: one call of the direct-store uploader\<close>

lemma failure_props:
  "js_prop (failure f e) ''filename'' = Str f"
  "js_prop (failure f e) ''status'' = Str ''error''"
  "js_prop (failure f e) ''error'' = Str (message e)"
  "js_prop (failure f e) ''details'' = response_data e"
  "\<not> nullish (failure f e)"
  by (simp_all add: failure_def)

lemma upload_to_folder_success:
  "upload_to_folder d w f = (Inr out, l) \<Longrightarrow>
     js_prop out ''filename'' = Str f \<and> js_prop out ''status'' = Str ''success'' \<and> \<not> nullish out"
  by (auto simp: upload_to_folder_def Let_def split: if_splits option.splits sum.splits)

lemma processUpload_try_success:
  "processUpload_try p s w f = (Inr out, s', l) \<Longrightarrow>
     js_prop out ''filename'' = Str f \<and> js_prop out ''status'' = Str ''success'' \<and> \<not> nullish out"
  by (auto simp: processUpload_try_def split: prod.splits sum.splits dest: upload_to_folder_success)

lemma processUpload_end_Inr:
  "\<exists>out s' l. processUpload_end p s w f = (Inr out, s', l) \<and> is_outcome f out"
proof (cases "processUpload_try p s w f")
  case (fields r s1 l)
  show ?thesis
  proof (cases r)
    case (Inl e)
    with fields show ?thesis
      by (simp add: processUpload_end_def is_outcome_def failure_props)
  next
    case (Inr out)
    with fields processUpload_try_success[of p s w f out s1 l] show ?thesis
      by (simp add: processUpload_end_def is_outcome_def)
  qed
qed

lemma upload_to_folder_any_service:
  "upload_to_folder (Some d) w f = upload_to_folder (Some d') w f"
  by (simp add: upload_to_folder_def)

lemma try_outcome_indep:
  "fst (processUpload_try p s w f) = fst (processUpload_try p s' w f)"
proof (cases p)
  case (Settled r)
  then show ?thesis
    by (simp add: processUpload_try_def initializeAuth_end_def split: prod.splits sum.splits)
next
  case Authorizing
  show ?thesis
  proof (cases "authorize w")
    case (Inl e)
    with Authorizing show ?thesis
      by (simp add: processUpload_try_def initializeAuth_end_def)
  next
    case (Inr u)
    with Authorizing
      upload_to_folder_any_service[of "DriveV3 (authClient s)" w f "DriveV3 (authClient s')"]
    show ?thesis
      by (simp add: processUpload_try_def initializeAuth_end_def Let_def split: prod.splits)
  qed
qed

lemma end_outcome_indep:
  "fst (processUpload_end p s w f) = fst (processUpload_end p s' w f)"
  using try_outcome_indep[of p s w f s']
  by (auto simp: processUpload_end_def split: prod.splits sum.splits)

lemma settled_eq: "fst (processUpload_end p s w f) = settled p w f"
  unfolding settled_def by (rule end_outcome_indep)

lemma settled_Inr: "\<exists>out. settled p w f = Inr out \<and> is_outcome f out"
  using processUpload_end_Inr[of p "\<lparr>authClient = None, driveService = None\<rparr>" w f]
  by (auto simp: settled_def)

lemma drive_call:
  "\<exists>out s' l. processUpload s w buf filename mimeType = (Inr out, s', l) \<and>
     js_prop out ''filename'' = Str filename \<and>
     (case caught s w filename of
        None \<Rightarrow> js_prop out ''status'' = Str ''success''
      | Some error \<Rightarrow>
          js_prop out ''status'' = Str ''error'' \<and>
          js_prop out ''error'' = Str (message error) \<and>
          js_prop out ''details'' = (case response error of None \<Rightarrow> Undefined | Some r \<Rightarrow> resp_data r))"
proof -
  obtain p s1 l1 where b: "processUpload_begin s w filename = (p, s1, l1)"
    by (cases "processUpload_begin s w filename") auto
  obtain r s2 l2 where t: "processUpload_try p s1 w filename = (r, s2, l2)"
    by (cases "processUpload_try p s1 w filename") auto
  show ?thesis
  proof (cases r)
    case (Inl e)
    with b t show ?thesis
      by (simp add: processUpload_def processUpload_end_def caught_def failure_props response_data_def)
  next
    case (Inr out)
    with b t processUpload_try_success[of p s1 w filename out s2 l2] show ?thesis
      by (simp add: processUpload_def processUpload_end_def caught_def)
  qed
qed

section \<open>Lemmas: one call of the two-phase uploader\<close>

lemma media_item_outcome_success:
  "media_item_outcome data f = (Inr out, l) \<Longrightarrow>
     js_prop out ''filename'' = Str f \<and> js_prop out ''status'' = Str ''success''"
  by (auto simp: media_item_outcome_def Let_def split: if_splits sum.splits)

lemma upload_to_album_success:
  "upload_to_album w f = (Inr out, l) \<Longrightarrow>
     js_prop out ''filename'' = Str f \<and> js_prop out ''status'' = Str ''success''"
  by (auto simp: upload_to_album_def Let_def split: if_splits sum.splits prod.splits
      dest: media_item_outcome_success)

lemma photos_try_success:
  "photos_processUpload_try s w f = (Inr out, s', l) \<Longrightarrow>
     js_prop out ''filename'' = Str f \<and> js_prop out ''status'' = Str ''success''"
  by (auto simp: photos_processUpload_try_def Let_def split: sum.splits prod.splits
      dest: upload_to_album_success)

lemma photos_call:
  "\<exists>out s' l. photos_processUpload s w buf filename mimeType = (Inr out, s', l) \<and>
     js_prop out ''filename'' = Str filename \<and>
     (case photos_caught s w filename of
        None \<Rightarrow> js_prop out ''status'' = Str ''success''
      | Some error \<Rightarrow>
          js_prop out ''status'' = Str ''error'' \<and>
          js_prop out ''error'' = Str (message error) \<and>
          js_prop out ''details'' = (case response error of None \<Rightarrow> Undefined | Some r \<Rightarrow> resp_data r))"
proof -
  obtain r s2 l2 where t: "photos_processUpload_try s w filename = (r, s2, l2)"
    by (cases "photos_processUpload_try s w filename") auto
  show ?thesis
  proof (cases r)
    case (Inl e)
    with t show ?thesis
      by (simp add: photos_processUpload_def photos_caught_def failure_props response_data_def)
  next
    case (Inr out)
    with t photos_try_success[of s w filename out s2 l2] show ?thesis
      by (simp add: photos_processUpload_def photos_caught_def)
  qed
qed

lemma photos_caught_iff:
  "(photos_caught s w f = None) =
     (\<not> (phase_a_fails w \<or> phase_b_fails w \<or> status_not_success w \<or> init_fails s w \<or>
          env_unset (ALBUM_ID w) \<or> token_fails (getAccessToken_a w) \<or>
          token_fails (getAccessToken_b w) \<or> no_first_item w))"
proof (cases "fst (photos_initializeAuth s w)")
  case (Inl e)
  then show ?thesis
    by (cases "photos_initializeAuth s w")
       (simp add: photos_caught_def photos_processUpload_try_def init_fails_def)
next
  case (Inr c)
  then obtain s1 l where i: "photos_initializeAuth s w = (Inr c, s1, l)"
    by (cases "photos_initializeAuth s w") auto
  have "(photos_caught s w f = None) = (\<not> isl (fst (upload_to_album w f)))"
    using i by (cases "upload_to_album w f")
      (auto simp: photos_caught_def photos_processUpload_try_def split: sum.splits)
  also have "\<dots> =
     (\<not> (phase_a_fails w \<or> phase_b_fails w \<or> status_not_success w \<or>
          env_unset (ALBUM_ID w) \<or> token_fails (getAccessToken_a w) \<or>
          token_fails (getAccessToken_b w) \<or> no_first_item w))"
    by (cases "getAccessToken_a w"; cases "uploads_post w"; cases "getAccessToken_b w";
        cases "batchCreate_post w")
       (auto simp: upload_to_album_def media_item_outcome_def js_get_def js_opt_get_def Let_def
          phase_a_fails_def phase_b_fails_def status_not_success_def no_first_item_def
          has_first_item_def item_results_def split: prod.splits)
  finally show ?thesis
    using i by (simp add: init_fails_def)
qed

section \<open>The uploaders\<close>

text \<open>
  C1. Whatever the state of the module and whatever the world answers, \<open>processUpload\<close>
  settles with an outcome object and never rejects. The outcome carries the file name;
  its status is \<open>success\<close> when the \<open>try\<close> block ran to its end, and \<open>error\<close> when
  anything was thrown in it: then \<open>error\<close> is the message of what was thrown and
  \<open>details\<close> is the payload of its \<open>response\<close>, if it has one. This holds for the
  direct-store uploader (googleDrive.js) and for the two-phase one (googlePhotos.js).
\<close>

theorem processUpload_never_throws:
  "(\<exists>out s' l. processUpload s w buf filename mimeType = (Inr out, s', l) \<and>
     js_prop out ''filename'' = Str filename \<and>
     (case caught s w filename of
        None \<Rightarrow> js_prop out ''status'' = Str ''success''
      | Some error \<Rightarrow>
          js_prop out ''status'' = Str ''error'' \<and>
          js_prop out ''error'' = Str (message error) \<and>
          js_prop out ''details'' = (case response error of None \<Rightarrow> Undefined | Some r \<Rightarrow> resp_data r))) \<and>
   (\<exists>out s' l. photos_processUpload ps w buf filename mimeType = (Inr out, s', l) \<and>
     js_prop out ''filename'' = Str filename \<and>
     (case photos_caught ps w filename of
        None \<Rightarrow> js_prop out ''status'' = Str ''success''
      | Some error \<Rightarrow>
          js_prop out ''status'' = Str ''error'' \<and>
          js_prop out ''error'' = Str (message error) \<and>
          js_prop out ''details'' = (case response error of None \<Rightarrow> Undefined | Some r \<Rightarrow> resp_data r)))"
  using drive_call[of s w buf filename mimeType] photos_call[of ps w buf filename mimeType]
  by blast

text \<open>
  At a remote rejection with a payload (direct store) and at a malformed remote response
  (two-phase: the body of the \<open>batchCreate\<close> response is \<open>null\<close>).
\<close>

theorem processUpload_never_throws_witness:
  "caught ready (world_ok\<lparr>files_create := Inl quota_exceeded\<rparr>) ''a.jpg'' = Some quota_exceeded \<and>
   fst (processUpload ready (world_ok\<lparr>files_create := Inl quota_exceeded\<rparr>) ''abc'' ''a.jpg'' ''image/jpeg'') =
     Inr (Obj [(''filename'', Str ''a.jpg''), (''status'', Str ''error''),
               (''error'', Str ''Request failed with status code 403''),
               (''details'', Obj [(''error'', Str ''quota exceeded'')])]) \<and>
   photos_caught photos_fresh (world_ok\<lparr>batchCreate_post := Inr Null\<rparr>) ''a.jpg'' =
     Some (cannot_read Null ''newMediaItemResults'') \<and>
   fst (photos_processUpload photos_fresh (world_ok\<lparr>batchCreate_post := Inr Null\<rparr>) ''abc'' ''a.jpg'' ''image/jpeg'') =
     Inr (Obj [(''filename'', Str ''a.jpg''), (''status'', Str ''error''),
               (''error'', Str (''Cannot read properties of null (reading '' @ [CHR 0x27] @
                                ''newMediaItemResults'' @ [CHR 0x27] @ '')'')),
               (''details'', Undefined)])"
proof -
  have c1: "caught ready (world_ok\<lparr>files_create := Inl quota_exceeded\<rparr>) ''a.jpg'' = Some quota_exceeded"
    by (simp add: caught_def processUpload_begin_def initializeAuth_begin_def processUpload_try_def
          initializeAuth_end_def upload_to_folder_def ready_def world_ok_def)
  have c2: "photos_caught photos_fresh (world_ok\<lparr>batchCreate_post := Inr Null\<rparr>) ''a.jpg'' =
              Some (cannot_read Null ''newMediaItemResults'')"
    by (simp add: photos_caught_def photos_processUpload_try_def photos_initializeAuth_def
          upload_to_album_def media_item_outcome_def js_get_def photos_fresh_def world_ok_def
          key_json_def access_token_def Let_def)
  obtain out s' l where d:
    "processUpload ready (world_ok\<lparr>files_create := Inl quota_exceeded\<rparr>) ''abc'' ''a.jpg'' ''image/jpeg'' = (Inr out, s', l)"
    "js_prop out ''filename'' = Str ''a.jpg''"
    and "case caught ready (world_ok\<lparr>files_create := Inl quota_exceeded\<rparr>) ''a.jpg'' of
        None \<Rightarrow> js_prop out ''status'' = Str ''success''
      | Some error \<Rightarrow>
          js_prop out ''status'' = Str ''error'' \<and>
          js_prop out ''error'' = Str (message error) \<and>
          js_prop out ''details'' = (case response error of None \<Rightarrow> Undefined | Some r \<Rightarrow> resp_data r)"
    using processUpload_never_throws[of ready "world_ok\<lparr>files_create := Inl quota_exceeded\<rparr>"
        "''abc''" "''a.jpg''" "''image/jpeg''" photos_fresh]
    by blast
  have e1: "fst (processUpload ready (world_ok\<lparr>files_create := Inl quota_exceeded\<rparr>) ''abc'' ''a.jpg'' ''image/jpeg'') =
     Inr (Obj [(''filename'', Str ''a.jpg''), (''status'', Str ''error''),
               (''error'', Str ''Request failed with status code 403''),
               (''details'', Obj [(''error'', Str ''quota exceeded'')])])"
    by (simp add: processUpload_def processUpload_end_def processUpload_begin_def
          initializeAuth_begin_def processUpload_try_def initializeAuth_end_def upload_to_folder_def
          failure_def response_data_def ready_def world_ok_def quota_exceeded_def)
  have e2: "fst (photos_processUpload photos_fresh (world_ok\<lparr>batchCreate_post := Inr Null\<rparr>) ''abc'' ''a.jpg'' ''image/jpeg'') =
     Inr (Obj [(''filename'', Str ''a.jpg''), (''status'', Str ''error''),
               (''error'', Str (''Cannot read properties of null (reading '' @ [CHR 0x27] @
                                ''newMediaItemResults'' @ [CHR 0x27] @ '')'')),
               (''details'', Undefined)])"
    by (simp add: photos_processUpload_def photos_processUpload_try_def photos_initializeAuth_def
          upload_to_album_def media_item_outcome_def js_get_def photos_fresh_def world_ok_def
          key_json_def access_token_def Let_def failure_def response_data_def cannot_read_def
          new_TypeError_def)
  show ?thesis
    using c1 c2 d e1 e2 by simp
qed

text \<open>
  C8. The outcome of \<open>processUpload\<close> of googleDrive.js does not depend on what
  \<open>permissions.create\<close> answers. In particular, when \<open>initializeAuth\<close> returned a drive
  service, \<open>FOLDER_ID\<close> is set and \<open>files.create\<close> answered with a file, a rejected
  \<open>permissions.create\<close> leaves the outcome a success built from that file, and the last
  console line is the warning with the rejection's message.
\<close>

theorem permission_failure_keeps_success:
  "fst (processUpload s (w\<lparr>permissions_create := p1\<rparr>) buf filename mimeType) =
   fst (processUpload s (w\<lparr>permissions_create := p2\<rparr>) buf filename mimeType) \<and>
   (fst (initializeAuth s w) = Inr (c, Some d) \<and> \<not> env_unset (FOLDER_ID w) \<and>
    files_create w = Inr created \<and> \<not> nullish created \<and> permissions_create w = Inl permError \<longrightarrow>
      (\<exists>s' l. processUpload s w buf filename mimeType =
         (Inr (Obj [(''filename'', Str filename),
                    (''status'', Str ''success''),
                    (''fileId'', js_prop created ''id''),
                    (''name'', js_prop created ''name''),
                    (''webViewLink'', js_prop created ''webViewLink''),
                    (''webContentLink'', js_prop created ''webContentLink''),
                    (''size'', js_prop created ''size''),
                    (''createdTime'', js_prop created ''createdTime'')]), s', l) \<and>
         last l = (WARN, [S ''Could not make file public: '', S (message permError)])))"
proof
  let ?w1 = "w\<lparr>permissions_create := p1\<rparr>" and ?w2 = "w\<lparr>permissions_create := p2\<rparr>"
  have u: "\<And>x. fst (upload_to_folder x ?w1 filename) = fst (upload_to_folder x ?w2 filename)"
    by (simp add: upload_to_folder_def Let_def split: option.splits sum.splits)
  have b: "initializeAuth_begin s ?w1 = initializeAuth_begin s ?w2"
    by (simp add: initializeAuth_begin_def split: option.splits sum.splits)
  have e: "\<And>p s1. initializeAuth_end p s1 ?w1 = initializeAuth_end p s1 ?w2"
    by (simp add: initializeAuth_end_def split: init_progress.splits sum.splits)
  have t: "\<And>p s1. fst (processUpload_try p s1 ?w1 filename) = fst (processUpload_try p s1 ?w2 filename)"
  proof -
    fix p s1
    obtain r s2 l where i: "initializeAuth_end p s1 ?w2 = (r, s2, l)"
      by (cases "initializeAuth_end p s1 ?w2") auto
    show "fst (processUpload_try p s1 ?w1 filename) = fst (processUpload_try p s1 ?w2 filename)"
    proof (cases r)
      case (Inl err)
      then show ?thesis using i e[of p s1] by (simp add: processUpload_try_def)
    next
      case (Inr cs)
      then show ?thesis
        using i e[of p s1] u[of "snd cs"]
        by (cases cs) (auto simp: processUpload_try_def split: prod.splits)
    qed
  qed
  have f: "\<And>p s1. fst (processUpload_end p s1 ?w1 filename) = fst (processUpload_end p s1 ?w2 filename)"
  proof -
    fix p s1
    show "fst (processUpload_end p s1 ?w1 filename) = fst (processUpload_end p s1 ?w2 filename)"
      using t[of p s1]
      by (cases "processUpload_try p s1 ?w1 filename"; cases "processUpload_try p s1 ?w2 filename")
         (auto simp: processUpload_end_def split: sum.splits)
  qed
  obtain p s1 where ib: "initializeAuth_begin s ?w2 = (p, s1)"
    by (cases "initializeAuth_begin s ?w2") auto
  show "fst (processUpload s ?w1 buf filename mimeType) = fst (processUpload s ?w2 buf filename mimeType)"
    using b ib f[of p s1]
    by (auto simp: processUpload_def processUpload_begin_def split: prod.splits)
next
  show "fst (initializeAuth s w) = Inr (c, Some d) \<and> \<not> env_unset (FOLDER_ID w) \<and>
    files_create w = Inr created \<and> \<not> nullish created \<and> permissions_create w = Inl permError \<longrightarrow>
      (\<exists>s' l. processUpload s w buf filename mimeType =
         (Inr (Obj [(''filename'', Str filename),
                    (''status'', Str ''success''),
                    (''fileId'', js_prop created ''id''),
                    (''name'', js_prop created ''name''),
                    (''webViewLink'', js_prop created ''webViewLink''),
                    (''webContentLink'', js_prop created ''webContentLink''),
                    (''size'', js_prop created ''size''),
                    (''createdTime'', js_prop created ''createdTime'')]), s', l) \<and>
         last l = (WARN, [S ''Could not make file public: '', S (message permError)]))"
  proof
    assume a: "fst (initializeAuth s w) = Inr (c, Some d) \<and> \<not> env_unset (FOLDER_ID w) \<and>
      files_create w = Inr created \<and> \<not> nullish created \<and> permissions_create w = Inl permError"
    obtain p s1 where b: "initializeAuth_begin s w = (p, s1)"
      by (cases "initializeAuth_begin s w") auto
    obtain s2 l2 where e: "initializeAuth_end p s1 w = (Inr (c, Some d), s2, l2)"
      using a b by (cases "initializeAuth_end p s1 w") (auto simp: initializeAuth_def)
    show "\<exists>s' l. processUpload s w buf filename mimeType =
         (Inr (Obj [(''filename'', Str filename),
                    (''status'', Str ''success''),
                    (''fileId'', js_prop created ''id''),
                    (''name'', js_prop created ''name''),
                    (''webViewLink'', js_prop created ''webViewLink''),
                    (''webContentLink'', js_prop created ''webContentLink''),
                    (''size'', js_prop created ''size''),
                    (''createdTime'', js_prop created ''createdTime'')]), s', l) \<and>
         last l = (WARN, [S ''Could not make file public: '', S (message permError)])"
      using a b e
      by (simp add: processUpload_def processUpload_begin_def processUpload_end_def
            processUpload_try_def upload_to_folder_def Let_def)
  qed
qed

theorem permission_failure_keeps_success_witness:
  "fst (initializeAuth fresh (world_ok\<lparr>permissions_create := Inl quota_exceeded\<rparr>)) =
     Inr (Some the_client, Some (DriveV3 (Some the_client))) \<and>
   \<not> env_unset (FOLDER_ID (world_ok\<lparr>permissions_create := Inl quota_exceeded\<rparr>)) \<and>
   files_create (world_ok\<lparr>permissions_create := Inl quota_exceeded\<rparr>) = Inr created_file \<and>
   \<not> nullish created_file \<and>
   permissions_create (world_ok\<lparr>permissions_create := Inl quota_exceeded\<rparr>) = Inl quota_exceeded \<and>
   fst (processUpload fresh (world_ok\<lparr>permissions_create := Inl quota_exceeded\<rparr>) ''abc'' ''a.jpg'' ''image/jpeg'') =
     Inr (Obj [(''filename'', Str ''a.jpg''),
               (''status'', Str ''success''),
               (''fileId'', Str ''file-1''),
               (''name'', Str ''a.jpg''),
               (''webViewLink'', Str ''https://drive.example/file-1/view''),
               (''webContentLink'', Undefined),
               (''size'', Str ''3''),
               (''createdTime'', Str ''2025-06-01T10:00:00.000Z'')]) \<and>
   last (snd (snd (processUpload fresh (world_ok\<lparr>permissions_create := Inl quota_exceeded\<rparr>) ''abc'' ''a.jpg'' ''image/jpeg''))) =
     (WARN, [S ''Could not make file public: '', S ''Request failed with status code 403''])"
proof -
  let ?w = "world_ok\<lparr>permissions_create := Inl quota_exceeded\<rparr>"
  have h: "fst (initializeAuth fresh ?w) = Inr (Some the_client, Some (DriveV3 (Some the_client))) \<and>
           \<not> env_unset (FOLDER_ID ?w) \<and> files_create ?w = Inr created_file \<and>
           \<not> nullish created_file \<and> permissions_create ?w = Inl quota_exceeded"
    by (simp add: initializeAuth_def initializeAuth_begin_def initializeAuth_end_def fresh_def
          world_ok_def key_json_def the_client_def created_file_def Let_def)
  from permission_failure_keeps_success[where s = fresh and w = "?w" and buf = "''abc''"
      and filename = "''a.jpg''" and mimeType = "''image/jpeg''" and c = "Some the_client"
      and d = "DriveV3 (Some the_client)" and created = created_file and permError = quota_exceeded] h
  obtain s' l where
    "processUpload fresh ?w ''abc'' ''a.jpg'' ''image/jpeg'' =
       (Inr (Obj [(''filename'', Str ''a.jpg''),
                  (''status'', Str ''success''),
                  (''fileId'', js_prop created_file ''id''),
                  (''name'', js_prop created_file ''name''),
                  (''webViewLink'', js_prop created_file ''webViewLink''),
                  (''webContentLink'', js_prop created_file ''webContentLink''),
                  (''size'', js_prop created_file ''size''),
                  (''createdTime'', js_prop created_file ''createdTime'')]), s', l)"
    "last l = (WARN, [S ''Could not make file public: '', S (message quota_exceeded)])"
    by blast
  then show ?thesis
    using h by (simp add: created_file_def quota_exceeded_def)
qed

lemma photos_status:
  "\<exists>out s' l. photos_processUpload s w buf filename mimeType = (Inr out, s', l) \<and>
     (js_prop out ''status'' = Str ''error'') = (photos_caught s w filename \<noteq> None) \<and>
     (js_prop out ''status'' = Str ''success'') = (photos_caught s w filename = None)"
proof -
  obtain out s' l where
    r: "photos_processUpload s w buf filename mimeType = (Inr out, s', l)"
    and c: "case photos_caught s w filename of
        None \<Rightarrow> js_prop out ''status'' = Str ''success''
      | Some error \<Rightarrow>
          js_prop out ''status'' = Str ''error'' \<and>
          js_prop out ''error'' = Str (message error) \<and>
          js_prop out ''details'' = (case response error of None \<Rightarrow> Undefined | Some r \<Rightarrow> resp_data r)"
    using photos_call[of s w buf filename mimeType] by blast
  show ?thesis
    using r c by (cases "photos_caught s w filename") auto
qed

text \<open>
  C7, as the code has it. In the two-phase variant \<open>processUpload\<close> always settles with
  an outcome. The outcome is a failure when the upload of the raw bytes (phase a) fails,
  when the creation call (phase b) fails, or when the first item of the creation response
  carries a status whose message is not \<open>Success\<close>; it is also a failure when
  \<open>initializeAuth\<close> throws, when \<open>ALBUM_ID\<close> is unset, when an access token cannot be
  had, or when the creation response has no first item to read. In every other case it
  is a success.
\<close>

theorem two_phase_failure_causes:
  "\<exists>out s' l. photos_processUpload s w buf filename mimeType = (Inr out, s', l) \<and>
     (js_prop out ''status'' = Str ''error'') =
       (phase_a_fails w \<or> phase_b_fails w \<or> status_not_success w \<or> init_fails s w \<or>
        env_unset (ALBUM_ID w) \<or> token_fails (getAccessToken_a w) \<or>
        token_fails (getAccessToken_b w) \<or> no_first_item w) \<and>
     (js_prop out ''status'' = Str ''success'') =
       (\<not> (phase_a_fails w \<or> phase_b_fails w \<or> status_not_success w \<or> init_fails s w \<or>
           env_unset (ALBUM_ID w) \<or> token_fails (getAccessToken_a w) \<or>
           token_fails (getAccessToken_b w) \<or> no_first_item w))"
  using photos_status[of s w buf filename mimeType] photos_caught_iff[of s w filename]
  by auto

text \<open>At a creation response whose item has the status message \<open>Quota exceeded\<close>.\<close>

theorem two_phase_failure_causes_witness:
  "status_not_success
     (world_ok\<lparr>batchCreate_post :=
        Inr (Obj [(''newMediaItemResults'',
                   Arr [Obj [(''status'', Obj [(''message'', Str ''Quota exceeded'')])]])])\<rparr>) \<and>
   js_prop (projr (fst (photos_processUpload photos_fresh
     (world_ok\<lparr>batchCreate_post :=
        Inr (Obj [(''newMediaItemResults'',
                   Arr [Obj [(''status'', Obj [(''message'', Str ''Quota exceeded'')])]])])\<rparr>)
     ''abc'' ''a.jpg'' ''image/jpeg''))) ''status'' = Str ''error''"
proof -
  let ?w = "world_ok\<lparr>batchCreate_post :=
        Inr (Obj [(''newMediaItemResults'',
                   Arr [Obj [(''status'', Obj [(''message'', Str ''Quota exceeded'')])]])])\<rparr>"
  have h: "status_not_success ?w"
    by (simp add: status_not_success_def has_first_item_def item_results_def js_opt_get_def world_ok_def)
  show ?thesis
    using h two_phase_failure_causes[of photos_fresh ?w "''abc''" "''a.jpg''" "''image/jpeg''"]
    by auto
qed

text \<open>
  C7 as stated fails: both phases succeed at the transport level and no item carries a
  status, yet the outcome is a failure, because the creation response lists no item.
\<close>

theorem two_phase_failure_counterexample:
  "\<not> phase_a_fails (world_ok\<lparr>batchCreate_post := Inr (Obj [(''newMediaItemResults'', Arr [])])\<rparr>) \<and>
   \<not> phase_b_fails (world_ok\<lparr>batchCreate_post := Inr (Obj [(''newMediaItemResults'', Arr [])])\<rparr>) \<and>
   \<not> status_not_success (world_ok\<lparr>batchCreate_post := Inr (Obj [(''newMediaItemResults'', Arr [])])\<rparr>) \<and>
   fst (photos_processUpload photos_fresh
          (world_ok\<lparr>batchCreate_post := Inr (Obj [(''newMediaItemResults'', Arr [])])\<rparr>)
          ''abc'' ''a.jpg'' ''image/jpeg'') =
     Inr (Obj [(''filename'', Str ''a.jpg''), (''status'', Str ''error''),
               (''error'', Str ''No media item results returned''), (''details'', Undefined)])"
  by (simp add: phase_a_fails_def phase_b_fails_def status_not_success_def has_first_item_def
        item_results_def js_opt_get_def photos_processUpload_def photos_processUpload_try_def
        photos_initializeAuth_def upload_to_album_def media_item_outcome_def js_get_def
        photos_fresh_def world_ok_def key_json_def access_token_def Let_def failure_def
        response_data_def new_Error_def)

text \<open>
  C9. In the two-phase variant, when initialization, both access tokens and both phases
  succeed and the first item of the creation response has no \<open>status\<close>, \<open>processUpload\<close>
  returns the success outcome built from that item.
\<close>

theorem absent_status_is_success:
  assumes "\<not> init_fails s w" and "\<not> env_unset (ALBUM_ID w)"
    and "\<not> token_fails (getAccessToken_a w)" and "\<not> phase_a_fails w"
    and "\<not> token_fails (getAccessToken_b w)" and "\<not> phase_b_fails w"
    and "has_first_item w"
    and "js_prop (js_elem (item_results w) 0) ''status'' = Undefined"
  shows "\<exists>s' l. photos_processUpload s w buf filename mimeType =
           (Inr (Obj [(''filename'', Str filename),
                      (''status'', Str ''success''),
                      (''mediaItemId'', js_opt_get (js_prop (js_elem (item_results w) 0) ''mediaItem'') ''id''),
                      (''productUrl'', js_opt_get (js_prop (js_elem (item_results w) 0) ''mediaItem'') ''productUrl'')]),
            s', l)"
proof -
  obtain c s1 l1 where i: "photos_initializeAuth s w = (Inr c, s1, l1)"
    using assms(1) by (cases "photos_initializeAuth s w"; cases "fst (photos_initializeAuth s w)")
      (auto simp: init_fails_def)
  obtain t1 where t1: "getAccessToken_a w = Inr t1" "\<not> nullish t1"
    using assms(3) by (cases "getAccessToken_a w") auto
  obtain u where u: "uploads_post w = Inr u"
    using assms(4) by (cases "uploads_post w") (auto simp: phase_a_fails_def)
  obtain t2 where t2: "getAccessToken_b w = Inr t2" "\<not> nullish t2"
    using assms(5) by (cases "getAccessToken_b w") auto
  obtain data where d: "batchCreate_post w = Inr data"
    using assms(6) by (cases "batchCreate_post w") (auto simp: phase_b_fails_def)
  have nd: "\<not> nullish data"
    using assms(7) d by (auto simp: has_first_item_def item_results_def js_opt_get_def)
  have m: "\<exists>l. media_item_outcome data filename =
      (Inr (Obj [(''filename'', Str filename),
                 (''status'', Str ''success''),
                 (''mediaItemId'', js_opt_get (js_prop (js_elem (item_results w) 0) ''mediaItem'') ''id''),
                 (''productUrl'', js_opt_get (js_prop (js_elem (item_results w) 0) ''mediaItem'') ''productUrl'')]), l)"
    using assms(7,8) d nd
    by (simp add: media_item_outcome_def has_first_item_def item_results_def js_opt_get_def
          js_get_def Let_def)
  then obtain l3 where m3: "media_item_outcome data filename =
      (Inr (Obj [(''filename'', Str filename),
                 (''status'', Str ''success''),
                 (''mediaItemId'', js_opt_get (js_prop (js_elem (item_results w) 0) ''mediaItem'') ''id''),
                 (''productUrl'', js_opt_get (js_prop (js_elem (item_results w) 0) ''mediaItem'') ''productUrl'')]), l3)"
    by blast
  show ?thesis
    using i t1 u t2 d m3 assms(2)
    by (simp add: photos_processUpload_def photos_processUpload_try_def upload_to_album_def
          js_get_def Let_def)
qed

text \<open>At a creation response whose only item is \<open>{mediaItem: ...}\<close>.\<close>

theorem absent_status_is_success_witness:
  "\<not> init_fails photos_fresh (world_ok\<lparr>batchCreate_post := Inr (Obj [(''newMediaItemResults'', Arr [Obj [(''mediaItem'', media_item)]])])\<rparr>) \<and>
   has_first_item (world_ok\<lparr>batchCreate_post := Inr (Obj [(''newMediaItemResults'', Arr [Obj [(''mediaItem'', media_item)]])])\<rparr>) \<and>
   js_prop (js_elem (item_results (world_ok\<lparr>batchCreate_post := Inr (Obj [(''newMediaItemResults'', Arr [Obj [(''mediaItem'', media_item)]])])\<rparr>)) 0) ''status'' = Undefined \<and>
   fst (photos_processUpload photos_fresh
          (world_ok\<lparr>batchCreate_post := Inr (Obj [(''newMediaItemResults'', Arr [Obj [(''mediaItem'', media_item)]])])\<rparr>)
          ''abc'' ''a.jpg'' ''image/jpeg'') =
     Inr (Obj [(''filename'', Str ''a.jpg''), (''status'', Str ''success''),
               (''mediaItemId'', Str ''media-1''),
               (''productUrl'', Str ''https://photos.example/media-1'')])"
proof -
  let ?w = "world_ok\<lparr>batchCreate_post := Inr (Obj [(''newMediaItemResults'', Arr [Obj [(''mediaItem'', media_item)]])])\<rparr>"
  have h1: "\<not> init_fails photos_fresh ?w"
    by (simp add: init_fails_def photos_initializeAuth_def photos_fresh_def world_ok_def key_json_def Let_def)
  have h2: "\<not> env_unset (ALBUM_ID ?w)" by (simp add: world_ok_def)
  have h3: "\<not> token_fails (getAccessToken_a ?w)" by (simp add: world_ok_def access_token_def)
  have h4: "\<not> phase_a_fails ?w" by (simp add: phase_a_fails_def world_ok_def)
  have h5: "\<not> token_fails (getAccessToken_b ?w)" by (simp add: world_ok_def access_token_def)
  have h6: "\<not> phase_b_fails ?w" by (simp add: phase_b_fails_def)
  have ir: "item_results ?w = Arr [Obj [(''mediaItem'', media_item)]]"
    by (simp add: item_results_def js_opt_get_def)
  have h7: "has_first_item ?w" by (simp add: has_first_item_def ir)
  have h8: "js_prop (js_elem (item_results ?w) 0) ''status'' = Undefined" by (simp add: ir)
  note r = absent_status_is_success[OF h1 h2 h3 h4 h5 h6 h7 h8, of "''abc''" "''a.jpg''" "''image/jpeg''",
      unfolded ir]
  have "fst (photos_processUpload photos_fresh ?w ''abc'' ''a.jpg'' ''image/jpeg'') =
     Inr (Obj [(''filename'', Str ''a.jpg''), (''status'', Str ''success''),
               (''mediaItemId'', Str ''media-1''),
               (''productUrl'', Str ''https://photos.example/media-1'')])"
    using r by (auto simp: media_item_def js_opt_get_def)
  then show ?thesis
    using h1 h7 h8 by simp
qed

lemma initializeAuth_cached:
  "authClient s \<noteq> None \<Longrightarrow> initializeAuth s w = (Inr (authClient s, driveService s), s, [])"
  by (auto simp: initializeAuth_def initializeAuth_begin_def initializeAuth_end_def)

lemma initializeAuth_returns:
  "initializeAuth s w = (Inr r, s', l) \<Longrightarrow> authClient s' \<noteq> None \<and> r = (authClient s', driveService s')"
  by (auto simp: initializeAuth_def initializeAuth_begin_def initializeAuth_end_def Let_def
      split: option.splits sum.splits if_splits)

lemma processUpload_init_throws:
  "initializeAuth_begin s w = (Settled (Inl e), s) \<Longrightarrow>
   \<exists>l. processUpload s w buf f m = (Inr (failure f e), s, l)"
  by (simp add: processUpload_def processUpload_begin_def processUpload_end_def
        processUpload_try_def initializeAuth_end_def)

text \<open>
  C6, as the code has it. What \<open>initializeAuth\<close> returns is cached: in the state it
  leaves, every later call returns the same client and service, changes nothing and asks
  nothing of the world. A failed construction is not cached when the key file is missing
  or cannot be read and parsed: the module variables stay as they were (so the next call
  attempts the construction again), and \<open>processUpload\<close> settles with a failure outcome
  built from the initialization error.
\<close>

theorem client_cached_failure_retried:
  "(fst (initializeAuth s w) = Inr r \<longrightarrow>
      initializeAuth (fst (snd (initializeAuth s w))) w' = (Inr r, fst (snd (initializeAuth s w)), [])) \<and>
   (authClient s = None \<and> SERVICE_ACCOUNT_KEY w = Some p \<and> \<not> existsSync w \<longrightarrow>
      (\<exists>l. processUpload s w buf f m =
         (Inr (failure f (new_Error (''Service account key file not found: '' @ keyFilePath w))), s, l))) \<and>
   (authClient s = None \<and> SERVICE_ACCOUNT_KEY w = Some p \<and> existsSync w \<and> readKey w = Inl e \<longrightarrow>
      (\<exists>l. processUpload s w buf f m = (Inr (failure f e), s, l)))"
proof (intro conjI impI)
  assume a: "fst (initializeAuth s w) = Inr r"
  obtain s1 l1 where i: "initializeAuth s w = (Inr r, s1, l1)"
    using a by (cases "initializeAuth s w") auto
  from initializeAuth_returns[OF i] initializeAuth_cached[of s1 w']
  show "initializeAuth (fst (snd (initializeAuth s w))) w' = (Inr r, fst (snd (initializeAuth s w)), [])"
    using i by simp
next
  assume a: "authClient s = None \<and> SERVICE_ACCOUNT_KEY w = Some p \<and> \<not> existsSync w"
  then have "initializeAuth_begin s w =
      (Settled (Inl (new_Error (''Service account key file not found: '' @ keyFilePath w))), s)"
    by (simp add: initializeAuth_begin_def)
  then show "\<exists>l. processUpload s w buf f m =
         (Inr (failure f (new_Error (''Service account key file not found: '' @ keyFilePath w))), s, l)"
    by (rule processUpload_init_throws)
next
  assume a: "authClient s = None \<and> SERVICE_ACCOUNT_KEY w = Some p \<and> existsSync w \<and> readKey w = Inl e"
  then have "initializeAuth_begin s w = (Settled (Inl e), s)"
    by (simp add: initializeAuth_begin_def)
  then show "\<exists>l. processUpload s w buf f m = (Inr (failure f e), s, l)"
    by (rule processUpload_init_throws)
qed

text \<open>
  At a process whose first call constructs the client, at a missing key file, and at a
  key file that does not parse.
\<close>

theorem client_cached_failure_retried_witness:
  "fst (initializeAuth fresh world_ok) = Inr (Some the_client, Some (DriveV3 (Some the_client))) \<and>
   initializeAuth (fst (snd (initializeAuth fresh world_ok))) (world_ok\<lparr>existsSync := False\<rparr>) =
     (Inr (Some the_client, Some (DriveV3 (Some the_client))), ready, []) \<and>
   authClient fresh = None \<and>
   SERVICE_ACCOUNT_KEY (world_ok\<lparr>existsSync := False\<rparr>) = Some ''./service-account-key.json'' \<and>
   \<not> existsSync (world_ok\<lparr>existsSync := False\<rparr>) \<and>
   fst (processUpload fresh (world_ok\<lparr>existsSync := False\<rparr>) ''abc'' ''a.jpg'' ''image/jpeg'') =
     Inr (failure ''a.jpg'' (new_Error ''Service account key file not found: /app/service-account-key.json'')) \<and>
   fst (snd (processUpload fresh (world_ok\<lparr>existsSync := False\<rparr>) ''abc'' ''a.jpg'' ''image/jpeg'')) = fresh \<and>
   readKey (world_ok\<lparr>readKey := Inl (new_Error ''Unexpected token } in JSON at position 12'')\<rparr>) =
     Inl (new_Error ''Unexpected token } in JSON at position 12'') \<and>
   fst (processUpload fresh (world_ok\<lparr>readKey := Inl (new_Error ''Unexpected token } in JSON at position 12'')\<rparr>)
          ''abc'' ''a.jpg'' ''image/jpeg'') =
     Inr (failure ''a.jpg'' (new_Error ''Unexpected token } in JSON at position 12''))"
proof -
  let ?missing = "world_ok\<lparr>existsSync := False\<rparr>"
  let ?bad = "world_ok\<lparr>readKey := Inl (new_Error ''Unexpected token } in JSON at position 12'')\<rparr>"
  have i: "initializeAuth fresh world_ok =
             (Inr (Some the_client, Some (DriveV3 (Some the_client))), ready,
              [(LOG, [S ''Google Drive API initialized successfully''])])"
    by (simp add: initializeAuth_def initializeAuth_begin_def initializeAuth_end_def fresh_def
          ready_def world_ok_def key_json_def the_client_def Let_def)
  have h2: "authClient fresh = None \<and> SERVICE_ACCOUNT_KEY ?missing = Some ''./service-account-key.json'' \<and>
            \<not> existsSync ?missing"
    by (simp add: fresh_def world_ok_def)
  have k: "keyFilePath ?missing = ''/app/service-account-key.json''"
    by (simp add: world_ok_def)
  have h3: "authClient fresh = None \<and> SERVICE_ACCOUNT_KEY ?bad = Some ''./service-account-key.json'' \<and>
            existsSync ?bad \<and> readKey ?bad = Inl (new_Error ''Unexpected token } in JSON at position 12'')"
    by (simp add: fresh_def world_ok_def)
  note t1 = client_cached_failure_retried[where s = fresh and w = world_ok and w' = "?missing"
      and r = "(Some the_client, Some (DriveV3 (Some the_client)))"]
  note t2 = client_cached_failure_retried[where s = fresh and w = "?missing" and buf = "''abc''"
      and f = "''a.jpg''" and m = "''image/jpeg''" and p = "''./service-account-key.json''"]
  note t3 = client_cached_failure_retried[where s = fresh and w = "?bad" and buf = "''abc''"
      and f = "''a.jpg''" and m = "''image/jpeg''" and p = "''./service-account-key.json''"
      and e = "new_Error ''Unexpected token } in JSON at position 12''"]
  have c1: "initializeAuth (fst (snd (initializeAuth fresh world_ok))) ?missing =
     (Inr (Some the_client, Some (DriveV3 (Some the_client))), ready, [])"
    using t1 i by simp
  have c2: "\<exists>l. processUpload fresh ?missing ''abc'' ''a.jpg'' ''image/jpeg'' =
     (Inr (failure ''a.jpg'' (new_Error ''Service account key file not found: /app/service-account-key.json'')), fresh, l)"
    using t2 h2 k by simp
  have c3: "\<exists>l. processUpload fresh ?bad ''abc'' ''a.jpg'' ''image/jpeg'' =
     (Inr (failure ''a.jpg'' (new_Error ''Unexpected token } in JSON at position 12'')), fresh, l)"
    using t3 h3 by blast
  show ?thesis
    using i c1 c2 c3 h2 h3 by auto
qed

text \<open>
  C6 as stated fails: the first call finds no key file and fails; the call after it, made
  once the key file is there, constructs the client anew and succeeds.
\<close>

theorem failed_construction_counterexample:
  "fst (processUpload fresh (world_ok\<lparr>existsSync := False\<rparr>) ''abc'' ''a.jpg'' ''image/jpeg'') =
     Inr (Obj [(''filename'', Str ''a.jpg''), (''status'', Str ''error''),
               (''error'', Str ''Service account key file not found: /app/service-account-key.json''),
               (''details'', Undefined)]) \<and>
   js_prop (projr (fst (processUpload
       (fst (snd (processUpload fresh (world_ok\<lparr>existsSync := False\<rparr>) ''abc'' ''a.jpg'' ''image/jpeg'')))
       world_ok ''abc'' ''b.jpg'' ''image/jpeg''))) ''status'' = Str ''success''"
proof -
  have a: "processUpload fresh (world_ok\<lparr>existsSync := False\<rparr>) ''abc'' ''a.jpg'' ''image/jpeg'' =
     (Inr (Obj [(''filename'', Str ''a.jpg''), (''status'', Str ''error''),
               (''error'', Str ''Service account key file not found: /app/service-account-key.json''),
               (''details'', Undefined)]), fresh,
      [(LOG, [S ''Processing upload for: '', S ''a.jpg'']),
       (ERROR, [S ''Failed to upload '', S ''a.jpg'', S '':'',
                S ''Service account key file not found: /app/service-account-key.json''])])"
    by (simp add: processUpload_def processUpload_begin_def processUpload_end_def
          processUpload_try_def initializeAuth_begin_def initializeAuth_end_def fresh_def
          world_ok_def failure_def response_data_def new_Error_def catch_log_def)
  have b: "js_prop (projr (fst (processUpload fresh world_ok ''abc'' ''b.jpg'' ''image/jpeg''))) ''status'' = Str ''success''"
    by (simp add: processUpload_def processUpload_begin_def processUpload_end_def
          processUpload_try_def initializeAuth_begin_def initializeAuth_end_def upload_to_folder_def
          fresh_def world_ok_def key_json_def created_file_def Let_def)
  show ?thesis
    using a b by simp
qed

text \<open>
  Where the authorization is rejected, \<open>authClient\<close> is already assigned and
  \<open>driveService\<close> is not: every later call takes the client for cached and fails on
  \<open>driveService.files\<close>.
\<close>

lemma after_rejected_authorization:
  "authClient s = None \<Longrightarrow> SERVICE_ACCOUNT_KEY w = Some p \<Longrightarrow> existsSync w \<Longrightarrow>
   readKey w = Inr key \<Longrightarrow> \<not> nullish key \<Longrightarrow> authorize w = Inl e \<Longrightarrow>
   \<exists>l. processUpload s w buf f m =
     (Inr (failure f e),
      s\<lparr>authClient := Some (JWT (js_prop key ''client_email'') (js_prop key ''private_key''))\<rparr>, l)"
  by (simp add: processUpload_def processUpload_begin_def processUpload_end_def
        processUpload_try_def initializeAuth_begin_def initializeAuth_end_def)

lemma half_initialized_call:
  "authClient s = Some c \<Longrightarrow> driveService s = None \<Longrightarrow> \<not> env_unset (FOLDER_ID w) \<Longrightarrow>
   \<exists>l. processUpload s w buf f m = (Inr (failure f (cannot_read Undefined ''files'')), s, l)"
  by (simp add: processUpload_def processUpload_begin_def processUpload_end_def
        processUpload_try_def initializeAuth_begin_def initializeAuth_end_def upload_to_folder_def)

section \<open>Lemmas: a batch of calls\<close>

lemma start_calls_length: "start_calls s ws i files = (ps, s', l) \<Longrightarrow> length ps = length files"
  by (induction files arbitrary: s i ps s' l) (auto split: prod.splits)

lemma settle_calls_slots:
  "distinct order \<Longrightarrow> list_all (\<lambda>i. i < length slots) order \<Longrightarrow>
   fst (settle_calls order ps ws files s slots) =
     map (\<lambda>i. if i \<in> set order then Some (settled (ps ! i) (ws i) (originalname (files ! i))) else slots ! i)
       [0..<length slots]"
proof (induction order arbitrary: s slots)
  case Nil
  show ?case by (simp add: map_nth)
next
  case (Cons i order)
  obtain r s1 l1 where e: "processUpload_end (ps ! i) s (ws i) (originalname (files ! i)) = (r, s1, l1)"
    by (cases "processUpload_end (ps ! i) s (ws i) (originalname (files ! i))") auto
  have r: "r = settled (ps ! i) (ws i) (originalname (files ! i))"
    using settled_eq[of "ps ! i" s "ws i" "originalname (files ! i)"] e by simp
  have d: "distinct order" and ni: "i \<notin> set order" and il: "i < length slots"
    and al: "list_all (\<lambda>i. i < length (slots[i := Some r])) order"
    using Cons.prems by simp_all
  have "fst (settle_calls (i # order) ps ws files s slots) =
        fst (settle_calls order ps ws files s1 (slots[i := Some r]))"
    using e by (simp split: prod.splits)
  also have "\<dots> = map (\<lambda>j. if j \<in> set order then Some (settled (ps ! j) (ws j) (originalname (files ! j)))
                          else (slots[i := Some r]) ! j) [0..<length (slots[i := Some r])]"
    using Cons.IH[OF d, of "slots[i := Some r]" s1] al by simp
  also have "\<dots> = map (\<lambda>j. if j \<in> set (i # order) then Some (settled (ps ! j) (ws j) (originalname (files ! j)))
                          else slots ! j) [0..<length slots]"
    using ni il r by (auto simp: nth_list_update)
  finally show ?case .
qed

lemma is_order_set: "is_order n order \<Longrightarrow> set order = {..<n}"
proof -
  assume a: "is_order n order"
  then have sub: "set order \<subseteq> {..<n}"
    by (auto simp: is_order_def list_all_iff)
  from a have "card (set order) = n"
    by (simp add: is_order_def distinct_card)
  then show ?thesis
    using sub by (simp add: card_subset_eq)
qed

lemma fulfilled_map:
  "fulfilled (map (\<lambda>i. Some (Inr (g i))) xs) = Some (map g xs)"
  by (induction xs) simp_all

lemma first_rejection_none:
  "list_all (\<lambda>i. \<exists>v. slots ! i = Some (Inr v)) order \<Longrightarrow> first_rejection order slots = None"
  by (induction order) auto

lemma length_outcomes: "length (outcomes s ws files) = length files"
  by (simp add: outcomes_def)

lemma outcomes_nth:
  "i < length files \<Longrightarrow>
   settled (fst (start_calls s ws 0 files) ! i) (ws i) (originalname (files ! i)) = Inr (outcomes s ws files ! i) \<and>
   is_outcome (originalname (files ! i)) (outcomes s ws files ! i)"
  using settled_Inr[of "fst (start_calls s ws 0 files) ! i" "ws i" "originalname (files ! i)"]
  by (auto simp: outcomes_def)

lemma await_uploads_results:
  assumes o: "is_order (length files) order"
  shows "\<exists>s' l. await_uploads s ws order files = Some (Inr (outcomes s ws files), s', l)"
proof -
  obtain ps s1 l1 where st: "start_calls s ws 0 files = (ps, s1, l1)"
    by (cases "start_calls s ws 0 files") auto
  let ?n = "length files"
  let ?g = "\<lambda>i. projr (settled (ps ! i) (ws i) (originalname (files ! i)))"
  obtain slots s2 l2 where se: "settle_calls order ps ws files s1 (replicate ?n None) = (slots, s2, l2)"
    by (cases "settle_calls order ps ws files s1 (replicate ?n None)") auto
  have d: "distinct order" and al: "list_all (\<lambda>i. i < length (replicate ?n (None :: (js_error + jsval) option))) order"
    using o by (simp_all add: is_order_def)
  have so: "set order = {..<?n}" using o by (rule is_order_set)
  have "slots = fst (settle_calls order ps ws files s1 (replicate ?n None))"
    using se by simp
  also have "\<dots> = map (\<lambda>i. if i \<in> set order then Some (settled (ps ! i) (ws i) (originalname (files ! i)))
                           else replicate ?n None ! i) [0..<length (replicate ?n (None :: (js_error + jsval) option))]"
    by (rule settle_calls_slots[OF d al])
  also have "\<dots> = map (\<lambda>i. Some (Inr (?g i))) [0..<?n]"
  proof -
    have "\<And>i. settled (ps ! i) (ws i) (originalname (files ! i)) = Inr (?g i)"
    proof -
      fix i
      from settled_Inr[of "ps ! i" "ws i" "originalname (files ! i)"]
      show "settled (ps ! i) (ws i) (originalname (files ! i)) = Inr (?g i)" by auto
    qed
    then show ?thesis using so by auto
  qed
  finally have slots: "slots = map (\<lambda>i. Some (Inr (?g i))) [0..<?n]" .
  have ful: "fulfilled slots = Some (map ?g [0..<?n])"
    unfolding slots by (rule fulfilled_map)
  have "list_all (\<lambda>i. \<exists>v. slots ! i = Some (Inr v)) order"
    using so by (auto simp: slots list_all_iff)
  then have rej: "first_rejection order slots = None"
    by (rule first_rejection_none)
  have "outcomes s ws files = map ?g [0..<?n]"
    using st by (simp add: outcomes_def)
  then show ?thesis
    using o st se ful rej by (simp add: await_uploads_def Promise_all_def)
qed

lemma outcomes_all:
  "list_all (\<lambda>r. \<not> nullish r \<and> (js_prop r ''status'' = Str ''success'' \<or> js_prop r ''status'' = Str ''error''))
     (outcomes s ws files)"
proof -
  have "\<And>i. i < length files \<Longrightarrow>
          \<not> nullish (outcomes s ws files ! i) \<and>
          (js_prop (outcomes s ws files ! i) ''status'' = Str ''success'' \<or>
           js_prop (outcomes s ws files ! i) ''status'' = Str ''error'')"
    using outcomes_nth[of _ files s ws] by (auto simp: is_outcome_def)
  then show ?thesis
    by (simp add: list_all_length length_outcomes)
qed

lemma outcomes_not_nullish: "list_all (\<lambda>r. \<not> nullish r) (outcomes s ws files)"
  using outcomes_all[of s ws files] by (simp add: list_all_iff)

lemma outcomes_tagged:
  "list_all (\<lambda>r. js_prop r ''status'' = Str ''success'' \<or> js_prop r ''status'' = Str ''error'')
     (outcomes s ws files)"
  using outcomes_all[of s ws files] by (simp add: list_all_iff)

lemma outcomes_by_part:
  "list_all2 (\<lambda>file out. is_outcome (originalname file) out) files (outcomes s ws files)"
  using outcomes_nth[of _ files s ws] by (simp add: list_all2_conv_all_nth length_outcomes)

section \<open>Lemmas: from the outcomes to the response\<close>

lemma filter_success_outcomes:
  "list_all (\<lambda>r. \<not> nullish r) rs \<Longrightarrow>
   filter_success rs = Inr (filter (\<lambda>r. js_prop r ''status'' = Str ''success'') rs)"
  by (induction rs) (auto simp: js_get_def)

lemma counts_outcomes:
  "list_all (\<lambda>r. \<not> nullish r) rs \<Longrightarrow>
   counts rs = Inr (count_status ''success'' rs, int (length rs) - count_status ''success'' rs)"
  by (simp add: counts_def filter_success_outcomes Let_def count_status_def)

lemma count_partition:
  "list_all (\<lambda>r. js_prop r ''status'' = Str ''success'' \<or> js_prop r ''status'' = Str ''error'') rs \<Longrightarrow>
   count_status ''error'' rs = int (length rs) - count_status ''success'' rs"
  by (induction rs) (auto simp: count_status_def)

lemma respond_outcomes:
  assumes "list_all (\<lambda>r. \<not> nullish r) rs"
  shows "\<exists>l. respond rs =
           (Inr (if count_status ''success'' rs = 0 then all_uploads_failed
                 else success_envelope
                        (summary (count_status ''success'' rs) (int (length rs) - count_status ''success'' rs)) rs), l)"
  using counts_outcomes[OF assms]
  by (simp add: respond_def all_uploads_failed_def success_envelope_def Let_def)

lemma upload_handler_batch:
  assumes ne: "files \<noteq> []" and o: "is_order (length files) order"
  shows "\<exists>s' l. upload_handler s ws order (Some files) =
           Some (if count_status ''success'' (outcomes s ws files) = 0 then all_uploads_failed
                 else success_envelope
                        (summary (count_status ''success'' (outcomes s ws files))
                           (int (length files) - count_status ''success'' (outcomes s ws files)))
                        (outcomes s ws files), s', l)"
proof -
  obtain s1 l1 where a: "await_uploads s ws order files = Some (Inr (outcomes s ws files), s1, l1)"
    using await_uploads_results[OF o, of s ws] by blast
  obtain l2 where r: "respond (outcomes s ws files) =
      (Inr (if count_status ''success'' (outcomes s ws files) = 0 then all_uploads_failed
            else success_envelope
                   (summary (count_status ''success'' (outcomes s ws files))
                      (int (length (outcomes s ws files)) - count_status ''success'' (outcomes s ws files)))
                   (outcomes s ws files)), l2)"
    using respond_outcomes[OF outcomes_not_nullish, of s ws files] by blast
  show ?thesis
    using ne a r by (simp add: upload_handler_def length_outcomes)
qed

section \<open>Lemmas: the application\<close>

lemma upload_array_Inr: "upload_array parts n = Inr files \<Longrightarrow> files = parts"
  by (induction parts n arbitrary: files rule: upload_array.induct)
     (auto split: if_splits sum.splits)

lemma upload_array_limit: "upload_array parts n = Inr files \<Longrightarrow> n \<le> 50 \<Longrightarrow> n + length parts \<le> 50"
  by (induction parts n arbitrary: files rule: upload_array.induct)
     (auto simp: limits_files_def split: if_splits sum.splits)

lemma app_rejected:
  "upload_array parts 0 = Inl e \<Longrightarrow>
   app s sw (upload_request parts) =
     Some (internal_server_error, s, [(ERROR, [S ''Unhandled error:'', E e])])"
  by (simp add: app_def app_stack_def upload_request_def post_upload_def global_errors_def
        internal_server_error_def)

lemma app_accepted:
  "upload_array parts 0 = Inr files \<Longrightarrow>
   app s sw (upload_request parts) = upload_handler s (upload_worlds sw) (settle_order sw) (Some files)"
  by (simp add: app_def app_stack_def upload_request_def post_upload_def
        split: option.splits prod.splits step.splits)

lemma app_batch:
  assumes v: "upload_array parts 0 = Inr files" and ne: "files \<noteq> []"
    and o: "is_order (length files) (settle_order sw)"
  shows "\<exists>s' l. app s sw (upload_request parts) =
           Some (if count_status ''success'' (outcomes s (upload_worlds sw) files) = 0 then all_uploads_failed
                 else success_envelope
                        (summary (count_status ''success'' (outcomes s (upload_worlds sw) files))
                           (int (length files) - count_status ''success'' (outcomes s (upload_worlds sw) files)))
                        (outcomes s (upload_worlds sw) files), s', l)"
  using app_accepted[OF v, of s sw] upload_handler_batch[OF ne o, of s "upload_worlds sw"]
  by simp

section \<open>Lemmas: the examples\<close>

lemma two_photos_accepted:
  "upload_array [photo ''a.jpg'', photo ''b.jpg''] 0 = Inr [photo ''a.jpg'', photo ''b.jpg'']"
  by (simp add: photo_def fileFilter_def allowedTypes_def limits_files_def limits_fileSize_def)

lemma one_photo_accepted: "upload_array [photo ''a.jpg''] 0 = Inr [photo ''a.jpg'']"
  by (simp add: photo_def fileFilter_def allowedTypes_def limits_files_def limits_fileSize_def)

lemma ready_begin: "processUpload_begin ready w f =
    (Settled (Inr (Some the_client, Some (DriveV3 (Some the_client)))), ready,
     [(LOG, [S ''Processing upload for: '', S f])])"
  by (simp add: processUpload_begin_def initializeAuth_begin_def ready_def)

lemma settled_stored:
  "settled (Settled (Inr (Some the_client, Some (DriveV3 (Some the_client))))) world_ok f = Inr (stored f)"
  by (simp add: settled_def processUpload_end_def processUpload_try_def initializeAuth_end_def
        upload_to_folder_def world_ok_def created_file_def stored_def Let_def)

lemma settled_refused:
  "settled (Settled (Inr (Some the_client, Some (DriveV3 (Some the_client)))))
     (world_ok\<lparr>files_create := Inl quota_exceeded\<rparr>) f = Inr (refused f)"
  by (simp add: settled_def processUpload_end_def processUpload_try_def initializeAuth_end_def
        upload_to_folder_def world_ok_def refused_def failure_def response_data_def
        quota_exceeded_def Let_def)

lemma outcomes_first_ok:
  "outcomes ready first_ok [photo ''a.jpg'', photo ''b.jpg''] = [stored ''a.jpg'', refused ''b.jpg'']"
proof -
  have u: "[0..<2] = [0, Suc 0]" by (simp add: upt_rec)
  show ?thesis
    by (simp add: outcomes_def u ready_begin settled_stored settled_refused first_ok_def photo_def)
qed

lemma outcomes_none_ok:
  "outcomes ready none_ok [photo ''a.jpg''] = [refused ''a.jpg'']"
  by (simp add: outcomes_def ready_begin settled_refused none_ok_def photo_def)

lemma count_first_ok:
  "count_status ''success'' [stored ''a.jpg'', refused ''b.jpg''] = 1"
  "count_status ''error'' [stored ''a.jpg'', refused ''b.jpg''] = 1"
  by (simp_all add: count_status_def stored_def refused_def)

section \<open>The upload endpoint\<close>

text \<open>
  C2, as the code has it. For a batch that multer accepts, with at least one part, whose
  calls all settle: \<open>Promise.all\<close> yields one outcome per part; the outcome at position
  \<open>i\<close> carries the name of part \<open>i\<close> and is what the promise of call \<open>i\<close> settles to,
  whatever the module variables are at that moment; the same array results from every
  order in which the calls settle. When at least one outcome is a success the response
  carries exactly this array as \<open>results\<close>; when none is, the response is the aggregate
  failure and has no \<open>results\<close>.
\<close>

theorem results_in_submission_order:
  assumes v: "upload_array parts 0 = Inr files" and ne: "files \<noteq> []"
    and o: "is_order (length files) (settle_order sw)"
  shows "\<exists>results s1 l1 r s2 l2.
     await_uploads s (upload_worlds sw) (settle_order sw) files = Some (Inr results, s1, l1) \<and>
     length results = length files \<and>
     (\<forall>i<length files.
        js_prop (results ! i) ''filename'' = Str (originalname (files ! i)) \<and>
        (\<forall>st. fst (processUpload_end (fst (start_calls s (upload_worlds sw) 0 files) ! i) st
                   (upload_worlds sw i) (originalname (files ! i))) = Inr (results ! i))) \<and>
     (\<forall>order. is_order (length files) order \<longrightarrow>
        (\<exists>s3 l3. await_uploads s (upload_worlds sw) order files = Some (Inr results, s3, l3))) \<and>
     app s sw (upload_request parts) = Some (r, s2, l2) \<and>
     (if count_status ''success'' results = 0
      then r = all_uploads_failed \<and> reply_results r = Undefined
      else reply_results r = Arr results)"
proof -
  let ?rs = "outcomes s (upload_worlds sw) files"
  obtain s1 l1 where a: "await_uploads s (upload_worlds sw) (settle_order sw) files = Some (Inr ?rs, s1, l1)"
    using await_uploads_results[OF o, of s "upload_worlds sw"] by blast
  have n: "\<forall>i<length files.
        js_prop (?rs ! i) ''filename'' = Str (originalname (files ! i)) \<and>
        (\<forall>st. fst (processUpload_end (fst (start_calls s (upload_worlds sw) 0 files) ! i) st
                   (upload_worlds sw i) (originalname (files ! i))) = Inr (?rs ! i))"
    using outcomes_nth[of _ files s "upload_worlds sw"]
    by (simp add: settled_eq is_outcome_def)
  have e: "\<forall>order. is_order (length files) order \<longrightarrow>
        (\<exists>s3 l3. await_uploads s (upload_worlds sw) order files = Some (Inr ?rs, s3, l3))"
    using await_uploads_results[of files _ s "upload_worlds sw"] by blast
  obtain s2 l2 where p: "app s sw (upload_request parts) =
      Some (if count_status ''success'' ?rs = 0 then all_uploads_failed
            else success_envelope
                   (summary (count_status ''success'' ?rs) (int (length files) - count_status ''success'' ?rs))
                   ?rs, s2, l2)"
    using app_batch[OF v ne o, of s] by blast
  let ?r = "if count_status ''success'' ?rs = 0 then all_uploads_failed
            else success_envelope
                   (summary (count_status ''success'' ?rs) (int (length files) - count_status ''success'' ?rs))
                   ?rs"
  have "if count_status ''success'' ?rs = 0
        then ?r = all_uploads_failed \<and> reply_results ?r = Undefined
        else reply_results ?r = Arr ?rs"
    by (simp add: reply_results_def success_envelope_def all_uploads_failed_def js_opt_get_def)
  then show ?thesis
    using a n e p length_outcomes[of s "upload_worlds sw" files] by blast
qed

text \<open>
  Two photos whose calls settle in the order 1, 0: the first is stored, the second meets
  the quota.
\<close>

theorem results_in_submission_order_witness:
  "upload_array [photo ''a.jpg'', photo ''b.jpg''] 0 = Inr [photo ''a.jpg'', photo ''b.jpg''] \<and>
   [photo ''a.jpg'', photo ''b.jpg''] \<noteq> [] \<and>
   is_order (length [photo ''a.jpg'', photo ''b.jpg'']) (settle_order (surroundings first_ok [1, 0])) \<and>
   map_option fst (await_uploads ready first_ok [1, 0] [photo ''a.jpg'', photo ''b.jpg'']) =
     Some (Inr [stored ''a.jpg'', refused ''b.jpg'']) \<and>
   reply_results (the (map_option fst (app ready (surroundings first_ok [1, 0])
       (upload_request [photo ''a.jpg'', photo ''b.jpg''])))) =
     Arr [stored ''a.jpg'', refused ''b.jpg'']"
proof -
  let ?files = "[photo ''a.jpg'', photo ''b.jpg'']"
  let ?sw = "surroundings first_ok [1, 0]"
  have h3: "is_order (length ?files) (settle_order ?sw)"
    by (simp add: surroundings_def is_order_def)
  have w: "upload_worlds ?sw = first_ok" "settle_order ?sw = [1, 0]"
    by (simp_all add: surroundings_def)
  obtain results s1 l1 r s2 l2 where
    a: "await_uploads ready first_ok [1, 0] ?files = Some (Inr results, s1, l1)"
    and p: "app ready ?sw (upload_request ?files) = Some (r, s2, l2)"
    and d: "if count_status ''success'' results = 0
            then r = all_uploads_failed \<and> reply_results r = Undefined
            else reply_results r = Arr results"
    using results_in_submission_order[OF two_photos_accepted _ h3, of ready] w by auto
  have o2: "is_order (length ?files) [1, 0]"
    by (simp add: is_order_def)
  obtain s1' l1' where a': "await_uploads ready first_ok [1, 0] ?files = Some (Inr (outcomes ready first_ok ?files), s1', l1')"
    using await_uploads_results[OF o2, of ready first_ok] by blast
  have rs: "results = [stored ''a.jpg'', refused ''b.jpg'']"
    using a a' outcomes_first_ok by simp
  have "reply_results r = Arr [stored ''a.jpg'', refused ''b.jpg'']"
    using d rs count_first_ok by simp
  then show ?thesis
    using two_photos_accepted h3 a rs p by simp
qed

text \<open>
  C2 as stated fails: a batch of one photo passes validation and its one upload is
  refused; the handler holds the one outcome, but the response has no results array.
\<close>

theorem results_array_counterexample:
  "upload_array [photo ''a.jpg''] 0 = Inr [photo ''a.jpg''] \<and>
   is_order (length [photo ''a.jpg'']) (settle_order (surroundings none_ok [0])) \<and>
   map_option fst (await_uploads ready none_ok [0] [photo ''a.jpg'']) = Some (Inr [refused ''a.jpg'']) \<and>
   reply_results (the (map_option fst (app ready (surroundings none_ok [0])
       (upload_request [photo ''a.jpg''])))) = Undefined \<and>
   reply_results (the (map_option fst (app ready (surroundings none_ok [0])
       (upload_request [photo ''a.jpg''])))) \<noteq> Arr [refused ''a.jpg'']"
proof -
  let ?sw1 = "surroundings none_ok [0]"
  have h3: "is_order (length [photo ''a.jpg'']) (settle_order ?sw1)"
    by (simp add: surroundings_def is_order_def)
  have w: "upload_worlds ?sw1 = none_ok" "settle_order ?sw1 = [0]"
    by (simp_all add: surroundings_def)
  have o1: "is_order (length [photo ''a.jpg'']) [0]"
    by (simp add: is_order_def)
  obtain s3 l3 where b: "await_uploads ready none_ok [0] [photo ''a.jpg''] =
      Some (Inr (outcomes ready none_ok [photo ''a.jpg'']), s3, l3)"
    using await_uploads_results[OF o1, of ready none_ok] by blast
  have c: "count_status ''success'' [refused ''a.jpg''] = 0"
    by (simp add: count_status_def refused_def)
  obtain s4 l4 where p: "app ready ?sw1 (upload_request [photo ''a.jpg'']) = Some (all_uploads_failed, s4, l4)"
    using app_batch[OF one_photo_accepted _ h3, of ready] w outcomes_none_ok c by auto
  have u: "reply_results all_uploads_failed = Undefined"
    by (simp add: all_uploads_failed_def reply_results_def js_opt_get_def)
  show ?thesis
    using one_photo_accepted h3 b p u outcomes_none_ok by simp
qed

text \<open>
  C3. For a batch that multer accepts, with at least one part, whose calls all settle:
  with \<open>successCount\<close> and \<open>failureCount\<close> as lines 88 and 89 compute them from the
  results, the response is status 500 with \<open>All uploads failed\<close> when \<open>successCount\<close>
  is 0, and otherwise (\<open>successCount\<close> is positive) status 200 with the success flag, the
  summary of the two counts and the results.
\<close>

theorem partial_success_200_total_failure_500:
  assumes v: "upload_array parts 0 = Inr files" and ne: "files \<noteq> []"
    and o: "is_order (length files) (settle_order sw)"
  shows "\<exists>results s1 l1 successCount failureCount s2 l2.
     await_uploads s (upload_worlds sw) (settle_order sw) files = Some (Inr results, s1, l1) \<and>
     counts results = Inr (successCount, failureCount) \<and>
     0 \<le> successCount \<and>
     app s sw (upload_request parts) =
       Some (if successCount = 0
             then Reply 500 (Json (Obj [(''success'', Bool False), (''error'', Str ''All uploads failed'')]))
             else Reply 200 (Json (Obj [(''success'', Bool True),
                                        (''message'', Str (summary successCount failureCount)),
                                        (''results'', Arr results)])), s2, l2)"
proof -
  let ?rs = "outcomes s (upload_worlds sw) files"
  obtain s1 l1 where a: "await_uploads s (upload_worlds sw) (settle_order sw) files = Some (Inr ?rs, s1, l1)"
    using await_uploads_results[OF o, of s "upload_worlds sw"] by blast
  have c: "counts ?rs = Inr (count_status ''success'' ?rs, int (length files) - count_status ''success'' ?rs)"
    using counts_outcomes[OF outcomes_not_nullish, of s "upload_worlds sw" files]
    by (simp add: length_outcomes)
  have z: "0 \<le> count_status ''success'' ?rs"
    by (simp add: count_status_def)
  obtain s2 l2 where p: "app s sw (upload_request parts) =
      Some (if count_status ''success'' ?rs = 0 then all_uploads_failed
            else success_envelope
                   (summary (count_status ''success'' ?rs) (int (length files) - count_status ''success'' ?rs))
                   ?rs, s2, l2)"
    using app_batch[OF v ne o, of s] by blast
  show ?thesis
    using a c z p by (auto simp: all_uploads_failed_def success_envelope_def)
qed

text \<open>One stored, one refused: status 200; a single refused photo: status 500.\<close>

theorem partial_success_200_total_failure_500_witness:
  "upload_array [photo ''a.jpg'', photo ''b.jpg''] 0 = Inr [photo ''a.jpg'', photo ''b.jpg''] \<and>
   [photo ''a.jpg'', photo ''b.jpg''] \<noteq> [] \<and>
   is_order (length [photo ''a.jpg'', photo ''b.jpg'']) (settle_order (surroundings first_ok [1, 0])) \<and>
   counts [stored ''a.jpg'', refused ''b.jpg''] = Inr (1, 1) \<and>
   map_option fst (app ready (surroundings first_ok [1, 0]) (upload_request [photo ''a.jpg'', photo ''b.jpg''])) =
     Some (Reply 200 (Json (Obj [(''success'', Bool True),
                                 (''message'', Str ''1 file uploaded successfully to Google Drive, 1 failed''),
                                 (''results'', Arr [stored ''a.jpg'', refused ''b.jpg''])]))) \<and>
   map_option fst (app ready (surroundings none_ok [0]) (upload_request [photo ''a.jpg''])) =
     Some (Reply 500 (Json (Obj [(''success'', Bool False), (''error'', Str ''All uploads failed'')])))"
proof -
  let ?files = "[photo ''a.jpg'', photo ''b.jpg'']"
  let ?sw = "surroundings first_ok [1, 0]"
  let ?sw1 = "surroundings none_ok [0]"
  have h3: "is_order (length ?files) (settle_order ?sw)"
    by (simp add: surroundings_def is_order_def)
  have h3': "is_order (length [photo ''a.jpg'']) (settle_order ?sw1)"
    by (simp add: surroundings_def is_order_def)
  have w: "upload_worlds ?sw = first_ok" "settle_order ?sw = [1, 0]"
          "upload_worlds ?sw1 = none_ok" "settle_order ?sw1 = [0]"
    by (simp_all add: surroundings_def)
  have c: "counts [stored ''a.jpg'', refused ''b.jpg''] = Inr (1, 1)"
    by (simp add: counts_def js_get_def stored_def refused_def)
  have c1: "counts [refused ''a.jpg''] = Inr (0, 1)"
    by (simp add: counts_def js_get_def refused_def)
  have m: "summary 1 1 = ''1 file uploaded successfully to Google Drive, 1 failed''"
    by code_simp
  obtain results s1 l1 sc fc s2 l2 where
    a: "await_uploads ready first_ok [1, 0] ?files = Some (Inr results, s1, l1)"
    and k: "counts results = Inr (sc, fc)"
    and p: "app ready ?sw (upload_request ?files) =
       Some (if sc = 0
             then Reply 500 (Json (Obj [(''success'', Bool False), (''error'', Str ''All uploads failed'')]))
             else Reply 200 (Json (Obj [(''success'', Bool True),
                                        (''message'', Str (summary sc fc)),
                                        (''results'', Arr results)])), s2, l2)"
    using partial_success_200_total_failure_500[OF two_photos_accepted _ h3, of ready] w by auto
  have o2: "is_order (length ?files) [1, 0]"
    by (simp add: is_order_def)
  obtain s1' l1' where a': "await_uploads ready first_ok [1, 0] ?files = Some (Inr (outcomes ready first_ok ?files), s1', l1')"
    using await_uploads_results[OF o2, of ready first_ok] by blast
  have rs: "results = [stored ''a.jpg'', refused ''b.jpg'']"
    using a a' outcomes_first_ok by simp
  have scfc: "sc = 1 \<and> fc = 1" using k c rs by simp
  have e1: "map_option fst (app ready ?sw (upload_request ?files)) =
     Some (Reply 200 (Json (Obj [(''success'', Bool True),
                                 (''message'', Str ''1 file uploaded successfully to Google Drive, 1 failed''),
                                 (''results'', Arr [stored ''a.jpg'', refused ''b.jpg''])])))"
    using p rs scfc m by simp
  obtain results1 s3 l3 sc1 fc1 s4 l4 where
    b: "await_uploads ready none_ok [0] [photo ''a.jpg''] = Some (Inr results1, s3, l3)"
    and k1: "counts results1 = Inr (sc1, fc1)"
    and p1: "app ready ?sw1 (upload_request [photo ''a.jpg'']) =
       Some (if sc1 = 0
             then Reply 500 (Json (Obj [(''success'', Bool False), (''error'', Str ''All uploads failed'')]))
             else Reply 200 (Json (Obj [(''success'', Bool True),
                                        (''message'', Str (summary sc1 fc1)),
                                        (''results'', Arr results1)])), s4, l4)"
    using partial_success_200_total_failure_500[OF one_photo_accepted _ h3', of ready] w by auto
  have o1: "is_order (length [photo ''a.jpg'']) [0]"
    by (simp add: is_order_def)
  obtain s3' l3' where b': "await_uploads ready none_ok [0] [photo ''a.jpg''] =
      Some (Inr (outcomes ready none_ok [photo ''a.jpg'']), s3', l3')"
    using await_uploads_results[OF o1, of ready none_ok] by blast
  have rs1: "results1 = [refused ''a.jpg'']"
    using b b' outcomes_none_ok by simp
  have "sc1 = 0" using k1 c1 rs1 by simp
  then have e2: "map_option fst (app ready ?sw1 (upload_request [photo ''a.jpg''])) =
     Some (Reply 500 (Json (Obj [(''success'', Bool False), (''error'', Str ''All uploads failed'')])))"
    using p1 by simp
  show ?thesis
    using two_photos_accepted h3 c e1 e2 by simp
qed

text \<open>
  C5, as the code has it. For a batch that multer accepts, with at least one part, whose
  calls all settle: when at least one upload succeeded the response carries the results,
  one outcome per submitted part in the order of the parts, each with the part's file
  name and a status, and an error message when the status is \<open>error\<close>; when no upload
  succeeded the response is the aggregate \<open>All uploads failed\<close> alone, with no results.
\<close>

theorem outcomes_enumerated_on_success:
  assumes v: "upload_array parts 0 = Inr files" and ne: "files \<noteq> []"
    and o: "is_order (length files) (settle_order sw)"
  shows "\<exists>results s1 l1 r s2 l2.
     await_uploads s (upload_worlds sw) (settle_order sw) files = Some (Inr results, s1, l1) \<and>
     app s sw (upload_request parts) = Some (r, s2, l2) \<and>
     list_all2 (\<lambda>file out. is_outcome (originalname file) out) parts results \<and>
     (if count_status ''success'' results = 0
      then r = all_uploads_failed \<and> reply_results r = Undefined
      else reply_results r = Arr results)"
proof -
  let ?rs = "outcomes s (upload_worlds sw) files"
  obtain s1 l1 where a: "await_uploads s (upload_worlds sw) (settle_order sw) files = Some (Inr ?rs, s1, l1)"
    using await_uploads_results[OF o, of s "upload_worlds sw"] by blast
  obtain s2 l2 where p: "app s sw (upload_request parts) =
      Some (if count_status ''success'' ?rs = 0 then all_uploads_failed
            else success_envelope
                   (summary (count_status ''success'' ?rs) (int (length files) - count_status ''success'' ?rs))
                   ?rs, s2, l2)"
    using app_batch[OF v ne o, of s] by blast
  have f: "files = parts" using v by (rule upload_array_Inr)
  have e: "list_all2 (\<lambda>file out. is_outcome (originalname file) out) parts ?rs"
    using outcomes_by_part[of files s "upload_worlds sw"] f by simp
  have u: "reply_results all_uploads_failed = Undefined"
    by (simp add: reply_results_def all_uploads_failed_def js_opt_get_def)
  have k: "\<And>m. reply_results (success_envelope m ?rs) = Arr ?rs"
    by (simp add: reply_results_def success_envelope_def js_opt_get_def)
  show ?thesis
    using a p e u k by auto
qed

text \<open>One stored, one refused: both outcomes are in the response.\<close>

theorem outcomes_enumerated_on_success_witness:
  "upload_array [photo ''a.jpg'', photo ''b.jpg''] 0 = Inr [photo ''a.jpg'', photo ''b.jpg''] \<and>
   [photo ''a.jpg'', photo ''b.jpg''] \<noteq> [] \<and>
   is_order (length [photo ''a.jpg'', photo ''b.jpg'']) (settle_order (surroundings first_ok [1, 0])) \<and>
   count_status ''success'' [stored ''a.jpg'', refused ''b.jpg''] = 1 \<and>
   is_outcome ''a.jpg'' (stored ''a.jpg'') \<and> is_outcome ''b.jpg'' (refused ''b.jpg'') \<and>
   reply_results (the (map_option fst (app ready (surroundings first_ok [1, 0])
       (upload_request [photo ''a.jpg'', photo ''b.jpg''])))) =
     Arr [stored ''a.jpg'', refused ''b.jpg'']"
proof -
  let ?files = "[photo ''a.jpg'', photo ''b.jpg'']"
  let ?sw = "surroundings first_ok [1, 0]"
  have h3: "is_order (length ?files) (settle_order ?sw)"
    by (simp add: surroundings_def is_order_def)
  have w: "upload_worlds ?sw = first_ok" "settle_order ?sw = [1, 0]"
    by (simp_all add: surroundings_def)
  obtain results s1 l1 r s2 l2 where
    a: "await_uploads ready first_ok [1, 0] ?files = Some (Inr results, s1, l1)"
    and p: "app ready ?sw (upload_request ?files) = Some (r, s2, l2)"
    and e: "list_all2 (\<lambda>file out. is_outcome (originalname file) out) ?files results"
    and d: "if count_status ''success'' results = 0
            then r = all_uploads_failed \<and> reply_results r = Undefined
            else reply_results r = Arr results"
    using outcomes_enumerated_on_success[OF two_photos_accepted _ h3, of ready] w by auto
  have o2: "is_order (length ?files) [1, 0]"
    by (simp add: is_order_def)
  obtain s1' l1' where a': "await_uploads ready first_ok [1, 0] ?files = Some (Inr (outcomes ready first_ok ?files), s1', l1')"
    using await_uploads_results[OF o2, of ready first_ok] by blast
  have rs: "results = [stored ''a.jpg'', refused ''b.jpg'']"
    using a a' outcomes_first_ok by simp
  have "reply_results r = Arr [stored ''a.jpg'', refused ''b.jpg'']"
    using d rs count_first_ok by simp
  then show ?thesis
    using two_photos_accepted h3 p e rs count_first_ok by (simp add: photo_def)
qed

text \<open>
  C5 as stated fails: a batch of one photo, refused by the provider, is answered with
  \<open>All uploads failed\<close> and no per-file outcome.
\<close>

theorem all_failed_counterexample:
  "upload_array [photo ''a.jpg''] 0 = Inr [photo ''a.jpg''] \<and>
   map_option fst (await_uploads ready none_ok [0] [photo ''a.jpg'']) = Some (Inr [refused ''a.jpg'']) \<and>
   map_option fst (app ready (surroundings none_ok [0]) (upload_request [photo ''a.jpg''])) =
     Some (Reply 500 (Json (Obj [(''success'', Bool False), (''error'', Str ''All uploads failed'')]))) \<and>
   reply_results (Reply 500 (Json (Obj [(''success'', Bool False), (''error'', Str ''All uploads failed'')]))) =
     Undefined"
proof -
  let ?sw1 = "surroundings none_ok [0]"
  have h3: "is_order (length [photo ''a.jpg'']) (settle_order ?sw1)"
    by (simp add: surroundings_def is_order_def)
  have w: "upload_worlds ?sw1 = none_ok" "settle_order ?sw1 = [0]"
    by (simp_all add: surroundings_def)
  have o1: "is_order (length [photo ''a.jpg'']) [0]"
    by (simp add: is_order_def)
  obtain s3 l3 where b: "await_uploads ready none_ok [0] [photo ''a.jpg''] =
      Some (Inr (outcomes ready none_ok [photo ''a.jpg'']), s3, l3)"
    using await_uploads_results[OF o1, of ready none_ok] by blast
  have c: "count_status ''success'' [refused ''a.jpg''] = 0"
    by (simp add: count_status_def refused_def)
  obtain s4 l4 where p: "app ready ?sw1 (upload_request [photo ''a.jpg'']) = Some (all_uploads_failed, s4, l4)"
    using app_batch[OF one_photo_accepted _ h3, of ready] w outcomes_none_ok c by auto
  show ?thesis
    using one_photo_accepted b p outcomes_none_ok
    by (simp add: all_uploads_failed_def reply_results_def js_opt_get_def)
qed

text \<open>
  C10. For a batch that multer accepts, with at least one part, whose calls all settle:
  lines 88 and 89 compute without throwing; \<open>successCount\<close> is the number of results
  with status \<open>success\<close>, \<open>failureCount\<close> is the number of results minus
  \<open>successCount\<close>, which is the number of results with status \<open>error\<close>; and every
  result has one of the two statuses.
\<close>

theorem counts_partition_outcomes:
  assumes v: "upload_array parts 0 = Inr files" and ne: "files \<noteq> []"
    and o: "is_order (length files) (settle_order sw)"
  shows "\<exists>results s1 l1 successCount failureCount.
     await_uploads s (upload_worlds sw) (settle_order sw) files = Some (Inr results, s1, l1) \<and>
     counts results = Inr (successCount, failureCount) \<and>
     successCount = count_status ''success'' results \<and>
     failureCount = int (length results) - successCount \<and>
     failureCount = count_status ''error'' results \<and>
     list_all (\<lambda>r. js_prop r ''status'' = Str ''success'' \<or> js_prop r ''status'' = Str ''error'') results"
proof -
  let ?rs = "outcomes s (upload_worlds sw) files"
  obtain s1 l1 where a: "await_uploads s (upload_worlds sw) (settle_order sw) files = Some (Inr ?rs, s1, l1)"
    using await_uploads_results[OF o, of s "upload_worlds sw"] by blast
  have c: "counts ?rs = Inr (count_status ''success'' ?rs, int (length ?rs) - count_status ''success'' ?rs)"
    using counts_outcomes[OF outcomes_not_nullish, of s "upload_worlds sw" files] .
  have t: "list_all (\<lambda>r. js_prop r ''status'' = Str ''success'' \<or> js_prop r ''status'' = Str ''error'') ?rs"
    by (rule outcomes_tagged)
  have e: "count_status ''error'' ?rs = int (length ?rs) - count_status ''success'' ?rs"
    using t by (rule count_partition)
  show ?thesis
    using a c t e by simp
qed

text \<open>One stored, one refused: the counts are 1 and 1.\<close>

theorem counts_partition_outcomes_witness:
  "upload_array [photo ''a.jpg'', photo ''b.jpg''] 0 = Inr [photo ''a.jpg'', photo ''b.jpg''] \<and>
   [photo ''a.jpg'', photo ''b.jpg''] \<noteq> [] \<and>
   is_order (length [photo ''a.jpg'', photo ''b.jpg'']) (settle_order (surroundings first_ok [1, 0])) \<and>
   map_option fst (await_uploads ready first_ok [1, 0] [photo ''a.jpg'', photo ''b.jpg'']) =
     Some (Inr [stored ''a.jpg'', refused ''b.jpg'']) \<and>
   counts [stored ''a.jpg'', refused ''b.jpg''] = Inr (1, 1) \<and>
   count_status ''success'' [stored ''a.jpg'', refused ''b.jpg''] = 1 \<and>
   count_status ''error'' [stored ''a.jpg'', refused ''b.jpg''] = 1"
proof -
  let ?files = "[photo ''a.jpg'', photo ''b.jpg'']"
  let ?sw = "surroundings first_ok [1, 0]"
  have h3: "is_order (length ?files) (settle_order ?sw)"
    by (simp add: surroundings_def is_order_def)
  have w: "upload_worlds ?sw = first_ok" "settle_order ?sw = [1, 0]"
    by (simp_all add: surroundings_def)
  obtain results s1 l1 sc fc where
    a: "await_uploads ready first_ok [1, 0] ?files = Some (Inr results, s1, l1)"
    and k: "counts results = Inr (sc, fc)"
    and k1: "sc = count_status ''success'' results"
    and k2: "fc = count_status ''error'' results"
    using counts_partition_outcomes[OF two_photos_accepted _ h3, of ready] w by auto
  have o2: "is_order (length ?files) [1, 0]"
    by (simp add: is_order_def)
  obtain s1' l1' where a': "await_uploads ready first_ok [1, 0] ?files = Some (Inr (outcomes ready first_ok ?files), s1', l1')"
    using await_uploads_results[OF o2, of ready first_ok] by blast
  have rs: "results = [stored ''a.jpg'', refused ''b.jpg'']"
    using a a' outcomes_first_ok by simp
  show ?thesis
    using two_photos_accepted h3 a k k1 k2 rs count_first_ok by simp
qed

text \<open>
  C4, what the code does. A request that multer rejects (too many parts, a part over the
  size limit, a content type outside the allowed ones, an unexpected field) calls no
  uploader, as the claim says: the module variables are untouched and the console shows
  no call. But the error is passed on from the route, and the only error layer after the
  route is the global one: the response is status 500 with \<open>Internal server error\<close>, not
  400 with the cause. A multipart request without file parts gets 400 with
  \<open>No files uploaded\<close>.
\<close>

theorem rejected_upload_answered_500:
  "(upload_array parts 0 = Inl e \<longrightarrow>
      app s sw (upload_request parts) =
        Some (Reply 500 (Json (Obj [(''success'', Bool False), (''error'', Str ''Internal server error'')])),
              s, [(ERROR, [S ''Unhandled error:'', E e])])) \<and>
   app s sw (upload_request []) =
     Some (Reply 400 (Json (Obj [(''success'', Bool False), (''error'', Str ''No files uploaded'')])),
           s, [(LOG, [S ''Received upload request with '', N 0, S '' files''])])"
proof
  show "upload_array parts 0 = Inl e \<longrightarrow>
      app s sw (upload_request parts) =
        Some (Reply 500 (Json (Obj [(''success'', Bool False), (''error'', Str ''Internal server error'')])),
              s, [(ERROR, [S ''Unhandled error:'', E e])])"
    using app_rejected[of parts e s sw] by (simp add: internal_server_error_def)
next
  have "upload_array [] 0 = Inr []" by simp
  then have "app s sw (upload_request []) = upload_handler s (upload_worlds sw) (settle_order sw) (Some [])"
    by (rule app_accepted)
  then show "app s sw (upload_request []) =
     Some (Reply 400 (Json (Obj [(''success'', Bool False), (''error'', Str ''No files uploaded'')])),
           s, [(LOG, [S ''Received upload request with '', N 0, S '' files''])])"
    by (simp add: upload_handler_def no_files_reply_def)
qed

text \<open>A text file among the parts: multer passes the error of \<open>fileFilter\<close> on, the answer is 500.\<close>

theorem rejected_upload_answered_500_witness:
  "upload_array [notes_txt] 0 =
     Inl (new_Error ''Only images (JPEG, PNG, GIF, WebP) and videos (MP4, MOV, AVI) are allowed'') \<and>
   app ready (surroundings all_ok [0]) (upload_request [notes_txt]) =
     Some (Reply 500 (Json (Obj [(''success'', Bool False), (''error'', Str ''Internal server error'')])),
           ready,
           [(ERROR, [S ''Unhandled error:'',
                     E (new_Error ''Only images (JPEG, PNG, GIF, WebP) and videos (MP4, MOV, AVI) are allowed'')])])"
proof -
  have h: "upload_array [notes_txt] 0 =
     Inl (new_Error ''Only images (JPEG, PNG, GIF, WebP) and videos (MP4, MOV, AVI) are allowed'')"
    by (simp add: notes_txt_def fileFilter_def allowedTypes_def limits_files_def)
  show ?thesis
    using h rejected_upload_answered_500[of "[notes_txt]"
        "new_Error ''Only images (JPEG, PNG, GIF, WebP) and videos (MP4, MOV, AVI) are allowed''"
        ready "surroundings all_ok [0]"]
    by simp
qed

text \<open>
  The handler of lines 46 to 68 would answer each of the three causes with status 400;
  it is registered before the route, so it never sees them. Registered after the route
  it answers the text file with 400.
\<close>

lemma multer_errors_answers:
  "\<exists>b. multer_errors (MulterError ''LIMIT_FILE_SIZE'') = Respond (Reply 400 b)"
  "\<exists>b. multer_errors (MulterError ''LIMIT_FILE_COUNT'') = Respond (Reply 400 b)"
  "\<exists>b. multer_errors (new_Error ''Only images (JPEG, PNG, GIF, WebP) and videos (MP4, MOV, AVI) are allowed'') =
         Respond (Reply 400 b)"
  by (simp_all add: multer_errors_def MulterError_def new_Error_def)

lemma error_layer_after_route:
  "router [PostUpload, MulterErrors, GlobalErrors] None ready (surroundings all_ok [0]) (upload_request [notes_txt]) =
     Some (Reply 400 (Json (Obj [(''success'', Bool False),
             (''error'', Str ''Please upload supported file types: JPEG, PNG, GIF, WebP images or MP4, MOV, AVI videos.'')])),
           ready, [])"
  by (simp add: upload_request_def post_upload_def notes_txt_def fileFilter_def allowedTypes_def
        limits_files_def multer_errors_def new_Error_def)

text \<open>What multer makes of each cause.\<close>

lemma too_many_files: "50 < length parts \<Longrightarrow> isl (upload_array parts 0)"
  using upload_array_limit[of parts 0] by (cases "upload_array parts 0") auto

lemma oversized_file:
  "fieldname file = ''photos'' \<Longrightarrow> List.member allowedTypes (mimetype file) \<Longrightarrow>
   limits_fileSize \<le> length (buffer file) \<Longrightarrow>
   upload_array (file # rest) 0 = Inl (MulterError ''LIMIT_FILE_SIZE'')"
  by (simp add: fileFilter_def limits_files_def)

lemma disallowed_type:
  "fieldname file = ''photos'' \<Longrightarrow> \<not> List.member allowedTypes (mimetype file) \<Longrightarrow>
   upload_array (file # rest) 0 =
     Inl (new_Error ''Only images (JPEG, PNG, GIF, WebP) and videos (MP4, MOV, AVI) are allowed'')"
  by (simp add: fileFilter_def limits_files_def)

section \<open>A consequence of the suspension points\<close>

text \<open>
  On a process that has not constructed its client yet, the first call of a batch
  assigns \<open>authClient\<close> and suspends in \<open>authorize()\<close>; the second call starts before
  \<open>driveService\<close> is assigned, takes the client for cached and fails on
  \<open>driveService.files\<close>, although the world would have answered it like the first.
\<close>

lemma first_batch_on_fresh_process:
  "map_option fst (app fresh (surroundings all_ok [0, 1]) (upload_request [photo ''a.jpg'', photo ''b.jpg''])) =
     Some (Reply 200 (Json (Obj [(''success'', Bool True),
                                 (''message'', Str ''1 file uploaded successfully to Google Drive, 1 failed''),
                                 (''results'', Arr [stored ''a.jpg'',
                                                    failure ''b.jpg'' (cannot_read Undefined ''files'')])])))"
proof -
  let ?files = "[photo ''a.jpg'', photo ''b.jpg'']"
  let ?sw = "surroundings all_ok [0, 1]"
  let ?half = "\<lparr>authClient = Some the_client, driveService = None\<rparr>"
  have h3: "is_order (length ?files) (settle_order ?sw)"
    by (simp add: surroundings_def is_order_def)
  have w: "upload_worlds ?sw = all_ok"
    by (simp add: surroundings_def)
  have b0: "processUpload_begin fresh world_ok ''a.jpg'' =
      (Authorizing, ?half, [(LOG, [S ''Processing upload for: '', S ''a.jpg''])])"
    by (simp add: processUpload_begin_def initializeAuth_begin_def fresh_def world_ok_def
          key_json_def the_client_def)
  have b1: "processUpload_begin ?half world_ok ''b.jpg'' =
      (Settled (Inr (Some the_client, None)), ?half, [(LOG, [S ''Processing upload for: '', S ''b.jpg''])])"
    by (simp add: processUpload_begin_def initializeAuth_begin_def)
  have s0: "settled Authorizing world_ok ''a.jpg'' = Inr (stored ''a.jpg'')"
    by (simp add: settled_def processUpload_end_def processUpload_try_def initializeAuth_end_def
          upload_to_folder_def world_ok_def created_file_def stored_def Let_def)
  have s1: "settled (Settled (Inr (Some the_client, None))) world_ok ''b.jpg'' =
      Inr (failure ''b.jpg'' (cannot_read Undefined ''files''))"
    by (simp add: settled_def processUpload_end_def processUpload_try_def initializeAuth_end_def
          upload_to_folder_def world_ok_def)
  have u: "[0..<2] = [0, Suc 0]" by (simp add: upt_rec)
  have rs: "outcomes fresh all_ok ?files = [stored ''a.jpg'', failure ''b.jpg'' (cannot_read Undefined ''files'')]"
    by (simp add: outcomes_def u all_ok_def photo_def b0 b1 s0 s1)
  have c: "count_status ''success'' [stored ''a.jpg'', failure ''b.jpg'' (cannot_read Undefined ''files'')] = 1"
    by (simp add: count_status_def stored_def failure_def)
  have m: "summary 1 1 = ''1 file uploaded successfully to Google Drive, 1 failed''"
    by code_simp
  obtain s2 l2 where "app fresh ?sw (upload_request ?files) =
      Some (success_envelope (summary 1 1)
              [stored ''a.jpg'', failure ''b.jpg'' (cannot_read Undefined ''files'')], s2, l2)"
    using app_batch[OF two_photos_accepted _ h3, of fresh] w rs c by auto
  then show ?thesis
    using m by (simp add: success_envelope_def)
qed

end
